theory Spec2Isabelle
  imports Complex_Main
begin

section \<open>Python values used by the command parser\<close>

text \<open>
  The parser of \<^verbatim>\<open>input_parser.py\<close> works on Python strings and on variables that hold
  either a string or \<^verbatim>\<open>None\<close>.  A string is a \<^typ>\<open>string\<close>, a variable that may be
  \<^verbatim>\<open>None\<close> is a \<^typ>\<open>string option\<close>.  Python's truth test on such a variable
  (\<^verbatim>\<open>if city:\<close>) holds for a non-empty string only.
\<close>

definition truthy :: "string option \<Rightarrow> bool" where
  "truthy v = (case v of None \<Rightarrow> False | Some s \<Rightarrow> s \<noteq> [])"

text \<open>An f-string prints \<^verbatim>\<open>None\<close> as the four letters.\<close>

definition py_str :: "string option \<Rightarrow> string" where
  "py_str v = (case v of None \<Rightarrow> ''None'' | Some s \<Rightarrow> s)"

section \<open>Characters and string methods\<close>

text \<open>
  A Python string is modelled as a list of 8-bit characters, each read as the code point
  of the same number.  The classes \<^verbatim>\<open>\w\<close>, \<^verbatim>\<open>\s\<close> and \<^verbatim>\<open>\d\<close> and
  \<^verbatim>\<open>str.isspace\<close> are Python's Unicode classes on the code points below 256.
  \<^verbatim>\<open>upper\<close> and \<^verbatim>\<open>lower\<close> are modelled on the ASCII letters; the other
  characters are left as they are.
\<close>

definition code :: "char \<Rightarrow> nat" where
  "code c = of_char c"

definition is_digit :: "char \<Rightarrow> bool" where
  "is_digit c = (48 \<le> code c \<and> code c \<le> 57)"

definition is_upper :: "char \<Rightarrow> bool" where
  "is_upper c = (65 \<le> code c \<and> code c \<le> 90)"

definition is_lower :: "char \<Rightarrow> bool" where
  "is_lower c = (97 \<le> code c \<and> code c \<le> 122)"

definition is_space :: "char \<Rightarrow> bool" where
  "is_space c = ((9 \<le> code c \<and> code c \<le> 13) \<or> (28 \<le> code c \<and> code c \<le> 32)
                 \<or> code c = 133 \<or> code c = 160)"

definition is_word :: "char \<Rightarrow> bool" where
  "is_word c = (is_digit c \<or> is_upper c \<or> is_lower c \<or> code c = 95
                \<or> code c = 170 \<or> code c = 178 \<or> code c = 179 \<or> code c = 181
                \<or> code c = 185 \<or> code c = 186 \<or> (188 \<le> code c \<and> code c \<le> 190)
                \<or> (192 \<le> code c \<and> code c \<le> 214) \<or> (216 \<le> code c \<and> code c \<le> 246)
                \<or> 248 \<le> code c)"

definition lower_char :: "char \<Rightarrow> char" where
  "lower_char c = (if is_upper c then char_of (code c + 32) else c)"

definition upper_char :: "char \<Rightarrow> char" where
  "upper_char c = (if is_lower c then char_of (code c - 32) else c)"

definition lower :: "string \<Rightarrow> string" where
  "lower s = map lower_char s"

definition upper :: "string \<Rightarrow> string" where
  "upper s = map upper_char s"

definition strip :: "string \<Rightarrow> string" where
  "strip s = rev (dropWhile is_space (rev (dropWhile is_space s)))"

text \<open>\<^verbatim>\<open>str.split()\<close> without a separator: the maximal runs of non-space characters.\<close>

fun split_acc :: "string \<Rightarrow> string \<Rightarrow> string list" where
  "split_acc cur [] = (if cur = [] then [] else [rev cur])"
| "split_acc cur (c # cs) =
     (if is_space c then (if cur = [] then split_acc [] cs else rev cur # split_acc [] cs)
      else split_acc (c # cur) cs)"

definition py_split :: "string \<Rightarrow> string list" where
  "py_split s = split_acc [] s"

definition capitalize :: "string \<Rightarrow> string" where
  "capitalize s = (case s of [] \<Rightarrow> [] | c # cs \<Rightarrow> upper_char c # lower cs)"

fun join_sp :: "string list \<Rightarrow> string" where
  "join_sp [] = []"
| "join_sp [w] = w"
| "join_sp (w # ws) = w @ '' '' @ join_sp ws"

text \<open>\<^verbatim>\<open>string.capwords\<close>: split, capitalise every word, join with one blank.\<close>

definition capwords :: "string \<Rightarrow> string" where
  "capwords s = join_sp (map capitalize (py_split s))"

text \<open>\<^verbatim>\<open>int()\<close> on a string of decimal digits.\<close>

definition int_of_digits :: "string \<Rightarrow> int" where
  "int_of_digits s = foldl (\<lambda>n c. 10 * n + int (code c - 48)) 0 s"

section \<open>Regular expressions\<close>

text \<open>
  The patterns of the parser use literals, character classes, quantifiers on a single
  character class, groups, alternatives and the assertions \<^verbatim>\<open>\b\<close>, \<^verbatim>\<open>^\<close> and
  \<^verbatim>\<open>$\<close>.  A pattern is a value of \<open>rx\<close>.  The matcher returns every way to match at
  one position, in the order in which Python's backtracking matcher tries them, so
  that the head of the list is Python's match.  A position in the subject is a pair of
  the character before it (\<open>None\<close> at the start) and the rest of the subject.
\<close>

datatype citem = CRange char char | COne char | CWord | CSpace | CDigit | CNonDigit
  | CNonSpace | CAny

fun in_item :: "bool \<Rightarrow> citem \<Rightarrow> char \<Rightarrow> bool" where
  "in_item ic (CRange lo hi) c =
     ((code lo \<le> code c \<and> code c \<le> code hi)
      \<or> (ic \<and> ((code lo \<le> code (lower_char c) \<and> code (lower_char c) \<le> code hi)
               \<or> (code lo \<le> code (upper_char c) \<and> code (upper_char c) \<le> code hi))))"
| "in_item ic (COne a) c = (if ic then lower_char a = lower_char c else a = c)"
| "in_item ic CWord c = is_word c"
| "in_item ic CSpace c = is_space c"
| "in_item ic CDigit c = is_digit c"
| "in_item ic CNonDigit c = (\<not> is_digit c)"
| "in_item ic CNonSpace c = (\<not> is_space c)"
| "in_item ic CAny c = (code c \<noteq> 10)"

definition in_cls :: "bool \<Rightarrow> citem list \<Rightarrow> char \<Rightarrow> bool" where
  "in_cls ic k c = list_ex (\<lambda>i. in_item ic i c) k"

datatype rx = Eps | Lit string | Cls "citem list"
  | Rep "citem list" nat "nat option" | RepLazy "citem list" nat "nat option"
  | Seq rx rx | Alt rx rx | Grp nat rx | WordB | Bol | Eol

type_synonym caps = "(nat \<times> string) list"
type_synonym cfg = "char option \<times> string"

fun lit_match :: "bool \<Rightarrow> string \<Rightarrow> cfg \<Rightarrow> cfg option" where
  "lit_match ic [] x = Some x"
| "lit_match ic (a # as) (p, []) = None"
| "lit_match ic (a # as) (p, b # bs) =
     (if in_item ic (COne a) b then lit_match ic as (Some b, bs) else None)"

fun dec :: "nat option \<Rightarrow> nat option" where
  "dec None = None"
| "dec (Some n) = Some (n - 1)"

text \<open>
  A quantifier \<^verbatim>\<open>{lo,hi}\<close> on a class: the greedy one tries the longest run first,
  the lazy one (\<^verbatim>\<open>*?\<close>) the shortest.
\<close>

fun rep :: "bool \<Rightarrow> bool \<Rightarrow> citem list \<Rightarrow> nat \<Rightarrow> nat option \<Rightarrow> cfg \<Rightarrow> cfg list" where
  "rep greedy ic k lo hi (p, []) = (if lo = 0 then [(p, [])] else [])"
| "rep greedy ic k lo hi (p, c # cs) =
     (let more = (if hi \<noteq> Some 0 \<and> in_cls ic k c
                  then rep greedy ic k (lo - 1) (dec hi) (Some c, cs) else []);
          stop = (if lo = 0 then [(p, c # cs)] else [])
      in if greedy then more @ stop else stop @ more)"

definition at_boundary :: "cfg \<Rightarrow> bool" where
  "at_boundary x = ((case fst x of None \<Rightarrow> False | Some a \<Rightarrow> is_word a)
                    \<noteq> (case snd x of [] \<Rightarrow> False | b # _ \<Rightarrow> is_word b))"

fun rx_match :: "bool \<Rightarrow> rx \<Rightarrow> cfg \<times> caps \<Rightarrow> (cfg \<times> caps) list" where
  "rx_match ic Eps x = [x]"
| "rx_match ic (Lit l) (x, c) = (case lit_match ic l x of None \<Rightarrow> [] | Some y \<Rightarrow> [(y, c)])"
| "rx_match ic (Cls k) (x, c) =
     (case snd x of [] \<Rightarrow> []
      | a # as \<Rightarrow> if in_cls ic k a then [((Some a, as), c)] else [])"
| "rx_match ic (Rep k lo hi) (x, c) = map (\<lambda>y. (y, c)) (rep True ic k lo hi x)"
| "rx_match ic (RepLazy k lo hi) (x, c) = map (\<lambda>y. (y, c)) (rep False ic k lo hi x)"
| "rx_match ic (Seq a b) x = concat (map (rx_match ic b) (rx_match ic a x))"
| "rx_match ic (Alt a b) x = rx_match ic a x @ rx_match ic b x"
| "rx_match ic (Grp n r) (x, c) =
     map (\<lambda>(y, c'). (y, (n, take (length (snd x) - length (snd y)) (snd x)) # c'))
       (rx_match ic r (x, c))"
| "rx_match ic WordB (x, c) = (if at_boundary x then [(x, c)] else [])"
| "rx_match ic Bol (x, c) = (if fst x = None then [(x, c)] else [])"
| "rx_match ic Eol (x, c) = (if snd x = [] \<or> snd x = [CHR 0x0A] then [(x, c)] else [])"

text \<open>
  \<^verbatim>\<open>re.search\<close>: the first position with a match; the result holds the groups,
  group 0 being the whole match.  \<^verbatim>\<open>re.findall\<close> is only used for its truth value
  and its first element, which are those of \<^verbatim>\<open>re.search\<close>.
\<close>

fun search_from :: "bool \<Rightarrow> rx \<Rightarrow> cfg \<Rightarrow> caps option" where
  "search_from ic r (p, s) =
     (case rx_match ic (Grp 0 r) ((p, s), []) of
        (y, c) # _ \<Rightarrow> Some c
      | [] \<Rightarrow> (case s of [] \<Rightarrow> None | a # as \<Rightarrow> search_from ic r (Some a, as)))"

definition re_search :: "bool \<Rightarrow> rx \<Rightarrow> string \<Rightarrow> caps option" where
  "re_search ic r s = search_from ic r (None, s)"

definition group :: "caps \<Rightarrow> nat \<Rightarrow> string option" where
  "group c n = map_of c n"

text \<open>A group that took part in the match, as the string it holds.\<close>

definition grp :: "caps \<Rightarrow> nat \<Rightarrow> string" where
  "grp c n = (case map_of c n of None \<Rightarrow> [] | Some s \<Rightarrow> s)"

text \<open>
  \<^verbatim>\<open>re.sub(pattern, "", s)\<close>: every match is removed, from left to right.  An empty
  match removes nothing, and after it the matcher looks for a non-empty match at the
  same position before it moves on, so the text removed at a position is the first
  non-empty match there.
\<close>

function sub_from :: "bool \<Rightarrow> rx \<Rightarrow> cfg \<Rightarrow> string" where
  "sub_from ic r (p, s) =
     (case List.find (\<lambda>(y, c). length (snd y) < length s) (rx_match ic r ((p, s), [])) of
        Some (y, c) \<Rightarrow> sub_from ic r y
      | None \<Rightarrow> (case s of [] \<Rightarrow> [] | a # as \<Rightarrow> a # sub_from ic r (Some a, as)))"
  by pat_completeness auto
termination
  by (relation "measure (\<lambda>(ic, r, x). length (snd x))") (auto simp: find_Some_iff)

definition re_sub :: "bool \<Rightarrow> rx \<Rightarrow> string \<Rightarrow> string" where
  "re_sub ic r s = sub_from ic r (None, s)"

text \<open>The idiom of the parser: remove the matches, then strip.\<close>

definition remove :: "rx \<Rightarrow> string \<Rightarrow> string" where
  "remove r s = strip (re_sub True r s)"

fun seqs :: "rx list \<Rightarrow> rx" where
  "seqs [] = Eps"
| "seqs [r] = r"
| "seqs (r # rs) = Seq r (seqs rs)"

fun alts :: "rx list \<Rightarrow> rx" where
  "alts [] = Eps"
| "alts [r] = r"
| "alts (r # rs) = Alt r (alts rs)"

definition lits :: "string list \<Rightarrow> rx" where
  "lits ws = alts (map Lit ws)"

section \<open>The patterns of the parser\<close>

text \<open>
  Each pattern is named after the function that uses it; the functions below quote the
  regular expression of the source next to each use.
\<close>

definition digit09 :: "citem list" where
  "digit09 = [CRange CHR ''0'' CHR ''9'']"

definition alpha :: "citem list" where
  "alpha = [CRange CHR ''a'' CHR ''z'', CRange CHR ''A'' CHR ''Z'']"

definition alnum :: "citem list" where
  "alnum = [CRange CHR ''a'' CHR ''z'', CRange CHR ''A'' CHR ''Z'', CRange CHR ''0'' CHR ''9'']"

definition upalnum :: "citem list" where
  "upalnum = [CRange CHR ''A'' CHR ''Z'', CRange CHR ''0'' CHR ''9'']"

definition spaces :: rx where
  "spaces = Rep [CSpace] 0 None"

text \<open>\<^verbatim>\<open>\b(w1|w2|...)\b\<close>\<close>

definition kw :: "string list \<Rightarrow> rx" where
  "kw ws = seqs [WordB, Grp 1 (lits ws), WordB]"

text \<open>\<^verbatim>\<open>[a-zA-Z0-9]{1,3}[0-9][a-zA-Z0-9]{0,3}\<close>, a call sign without SSID.\<close>

definition callsign :: rx where
  "callsign = seqs [Rep alnum 1 (Some 3), Cls digit09, Rep alnum 0 (Some 3)]"

definition rx_units_metric :: rx where
  "rx_units_metric = kw [''mtr'', ''metric'']"

definition rx_units_imperial :: rx where
  "rx_units_imperial = kw [''imp'', ''imperial'']"

definition rx_unicode :: rx where
  "rx_unicode = seqs [WordB, Lit ''unicode'', WordB]"

definition rx_language :: rx where
  "rx_language = seqs [WordB, Grp 1 (lits [''lang'', ''lng'']), spaces,
                       Grp 2 (Rep alpha 2 (Some 2)), WordB]"

definition rx_top :: rx where
  "rx_top = seqs [WordB, Lit ''top'', Grp 1 (lits [''2'', ''3'', ''4'', ''5'']), WordB]"

definition rx_help :: rx where
  "rx_help = seqs [Bol, Grp 1 (lits [''info'', ''help'']), Eol]"

definition rx_when_days :: rx where
  "rx_when_days = seqs [WordB, Grp 1 (Cls [CRange CHR ''1'' CHR ''7'']), Lit ''d'', WordB]"

definition rx_when_hours :: rx where
  "rx_when_hours = seqs [WordB,
     Grp 1 (alts [Seq (Lit ''4'') (Cls [CRange CHR ''0'' CHR ''7'']),
                  Seq (Lit ''3'') (Cls digit09), Seq (Lit ''2'') (Cls digit09),
                  Seq (Lit ''1'') (Cls digit09), Cls [CRange CHR ''1'' CHR ''9'']]),
     Lit ''h'', WordB]"

definition repeater_modes :: rx where
  "repeater_modes = lits [''fm'', ''dstar'', ''d-star'', ''dmr'', ''c4fm'', ''ysf'', ''tetra'', ''atv'']"

text \<open>\<^verbatim>\<open>\d.?\d*(?:cm|m)\b\<close>\<close>

definition repeater_band_rx :: rx where
  "repeater_band_rx = seqs [Cls [CDigit], Rep [CAny] 0 (Some 1), Rep [CDigit] 0 None,
                            Alt (Lit ''cm'') (Lit ''m''), WordB]"

definition rx_repeater_mode_band :: rx where
  "rx_repeater_mode_band = seqs [WordB, Lit ''repeater'', spaces, Grp 1 repeater_modes, spaces,
                                 Grp 2 repeater_band_rx, WordB]"

definition rx_repeater_band_mode :: rx where
  "rx_repeater_band_mode = seqs [WordB, Lit ''repeater'', spaces, Grp 1 repeater_band_rx, spaces,
                                 Grp 2 repeater_modes, WordB]"

definition rx_repeater_mode :: rx where
  "rx_repeater_mode = seqs [WordB, Lit ''repeater'', spaces, Grp 1 repeater_modes, WordB]"

definition rx_repeater_band :: rx where
  "rx_repeater_band = seqs [WordB, Lit ''repeater'', spaces, Grp 1 repeater_band_rx, WordB]"

definition rx_repeater :: rx where
  "rx_repeater = seqs [WordB, Lit ''repeater'', WordB]"

definition rx_icao_kw :: rx where
  "rx_icao_kw = seqs [WordB, Grp 1 (Lit ''icao''), spaces, Grp 2 (Rep alnum 4 (Some 4)), WordB]"

definition rx_iata_kw :: rx where
  "rx_iata_kw = seqs [WordB, Grp 1 (Lit ''iata''), spaces, Grp 2 (Rep alnum 3 (Some 3)), WordB]"

definition rx_icao :: rx where
  "rx_icao = seqs [WordB, Grp 1 (Rep alnum 4 (Some 4)), WordB]"

definition rx_iata :: rx where
  "rx_iata = seqs [WordB, Grp 1 (Rep alnum 3 (Some 3)), WordB]"

definition rx_city_state_country :: rx where
  "rx_city_state_country = seqs [WordB, Grp 1 (Rep [CNonDigit, CSpace] 1 None), Lit '','',
     RepLazy [CSpace] 0 None, Grp 2 (Rep [CWord] 1 None), Lit '';'', spaces,
     Grp 3 (Rep alpha 2 (Some 2)), WordB]"

definition rx_city_state :: rx where
  "rx_city_state = seqs [WordB, Grp 1 (Rep [CNonDigit, CSpace] 1 None), Lit '','',
     RepLazy [CSpace] 0 None, Grp 2 (Rep [CWord] 1 None), WordB]"

definition rx_city_country :: rx where
  "rx_city_country = seqs [WordB, Grp 1 (Rep [CNonDigit, CSpace] 1 None), Lit '';'', spaces,
     Grp 2 (Rep alpha 2 (Some 2)), WordB]"

text \<open>\<^verbatim>\<open>[a-zA-Z0-9-( )]\<close>\<close>

definition zipchars :: "citem list" where
  "zipchars = alnum @ [COne CHR ''-'', COne CHR ''('', COne CHR '' '', COne CHR '')'']"

definition rx_zip_country_kw :: rx where
  "rx_zip_country_kw = seqs [WordB, Grp 1 (Lit ''zip''), spaces, Grp 2 (Rep zipchars 3 (Some 10)),
     Lit '';'', spaces, Grp 3 (Rep alpha 2 (Some 2)), WordB]"

definition rx_zip5_kw :: rx where
  "rx_zip5_kw = seqs [WordB, Grp 1 (Lit ''zip''), spaces, Grp 2 (Rep digit09 5 (Some 5)), WordB]"

definition rx_zip_country :: rx where
  "rx_zip_country = seqs [WordB, Grp 1 (Rep zipchars 3 (Some 10)), Lit '';'', spaces,
     Grp 2 (Rep alpha 2 (Some 2)), WordB]"

definition rx_zip5 :: rx where
  "rx_zip5 = seqs [WordB, Grp 1 (Rep digit09 5 (Some 5)), WordB]"

text \<open>\<^verbatim>\<open>[a-zA-Z]{2}[0-9]{2}([a-zA-Z]{2})?\<close> with its optional group numbered \<open>n\<close>.\<close>

definition locator :: "nat \<Rightarrow> rx" where
  "locator n = seqs [Rep alpha 2 (Some 2), Rep digit09 2 (Some 2),
                     Alt (Grp n (Rep alpha 2 (Some 2))) Eps]"

definition rx_grid_kw :: rx where
  "rx_grid_kw = seqs [WordB, Grp 1 (lits [''grid'', ''mh'']), spaces, Grp 2 (locator 3), WordB]"

definition rx_grid :: rx where
  "rx_grid = seqs [WordB, locator 1, WordB]"

text \<open>\<^verbatim>\<open>[\d\.,\-]\<close>\<close>

definition latlonchars :: "citem list" where
  "latlonchars = [CDigit, COne CHR ''.'', COne CHR '','', COne CHR ''-'']"

definition rx_latlon :: rx where
  "rx_latlon = seqs [WordB, Grp 1 (Rep latlonchars 1 None), Lit ''/'',
                     Grp 2 (Rep latlonchars 1 None), WordB]"

definition rx_wx_callsign_ssid :: rx where
  "rx_wx_callsign_ssid = seqs [WordB,
     Grp 1 (seqs [callsign, Lit ''-'', Rep digit09 1 (Some 2)]), WordB]"

definition rx_wx_callsign :: rx where
  "rx_wx_callsign = seqs [WordB, Grp 1 callsign, WordB]"

definition rx_osm_kw :: "string \<Rightarrow> rx" where
  "rx_osm_kw osm_category = seqs [WordB, Lit ''osm'', spaces, Grp 1 (Lit osm_category), WordB]"

definition rx_osm :: "string \<Rightarrow> rx" where
  "rx_osm osm_category = seqs [WordB, Grp 1 (Lit osm_category), WordB]"

definition rx_satpass :: rx where
  "rx_satpass = seqs [WordB, Grp 1 (lits [''vispass'', ''satpass'', ''satfreq'']), spaces,
     Grp 2 (Seq (Rep [CWord] 0 None) (Grp 3 (Rep [CNonSpace] 0 None))), WordB]"

definition rx_dapnet_ssid :: rx where
  "rx_dapnet_ssid = seqs [WordB, Grp 1 (lits [''dapnet'', ''dapnethp'']), spaces,
     Grp 2 (seqs [callsign, Lit ''-'', Rep alnum 1 (Some 2)]), spaces,
     Grp 3 (Rep [CNonDigit, CSpace] 1 None)]"

definition rx_dapnet :: rx where
  "rx_dapnet = seqs [WordB, Grp 1 (lits [''dapnet'', ''dapnethp'']), spaces,
     Grp 2 callsign, spaces, Grp 3 (Rep [CNonDigit, CSpace] 1 None)]"

definition rx_cwop :: rx where
  "rx_cwop = seqs [WordB, Lit ''cwop'', spaces, Grp 1 (Rep [CWord] 1 None), WordB]"

definition csm_keywords :: rx where
  "csm_keywords = lits [''wx'', ''forecast'', ''whereis'', ''riseset'', ''cwop'', ''metar'',
                        ''taf'', ''sonde'']"

definition rx_csm_ssid :: rx where
  "rx_csm_ssid = seqs [WordB, Grp 1 csm_keywords, spaces,
     Grp 2 (seqs [callsign, Lit ''-'', Rep alnum 1 (Some 2)]), WordB]"

definition rx_csm_callsign :: rx where
  "rx_csm_callsign = seqs [WordB, Grp 1 csm_keywords, spaces, Grp 2 callsign, WordB]"

definition rx_csm_token :: rx where
  "rx_csm_token = seqs [WordB, Grp 1 csm_keywords, spaces, Grp 2 (Rep [CWord] 1 None), WordB]"

definition rx_csm_bare :: rx where
  "rx_csm_bare = seqs [WordB, Grp 1 csm_keywords, WordB]"

definition rx_email :: rx where
  "rx_email = seqs [WordB, Grp 1 (lits [''posmsg'', ''posrpt'']), spaces,
     Grp 2 (seqs [Rep (alnum @ [COne CHR ''_'', COne CHR ''.'', COne CHR ''+'', COne CHR ''-'']) 1 None,
                  Lit ''@'', Rep (alnum @ [COne CHR ''-'']) 1 None, Lit ''.'',
                  Rep (alnum @ [COne CHR ''-'', COne CHR ''.'']) 1 None, Eol]), WordB]"

definition rx_us_callsign :: rx where
  "rx_us_callsign = seqs [Bol, Cls (map COne ''AKNW''), Rep alpha 0 (Some 2), Cls digit09,
                          Rep [CRange CHR ''A'' CHR ''Z''] 1 (Some 3)]"

definition rx_imperial_prefix :: rx where
  "rx_imperial_prefix = seqs [Bol,
     Grp 1 (lits [''A8'', ''D5'', ''EL'', ''5L'', ''5M'', ''6Z'', ''XY'', ''XZ''])]"

definition rx_users_ssid :: rx where
  "rx_users_ssid = seqs [Bol,
     Grp 1 (seqs [Grp 2 (seqs [Rep upalnum 1 (Some 3), Cls (map COne ''0123456789''),
                               Rep upalnum 0 (Some 3)]),
                  Lit ''-'', Grp 3 (Rep upalnum 1 (Some 2))]), Eol]"

section \<open>Weekday offset (\<^verbatim>\<open>utility_modules.getdaysuntil\<close>)\<close>

text \<open>
  A \<^verbatim>\<open>datetime.date\<close> is modelled by its proleptic Gregorian ordinal, an \<^typ>\<open>int\<close>;
  adding a \<^verbatim>\<open>timedelta\<close> of \<open>n\<close> days adds \<open>n\<close>, the difference of two dates is the
  difference of the ordinals.  \<^verbatim>\<open>date.weekday()\<close> is 0 on Monday, and ordinal 1 is a
  Monday.  The system date \<^verbatim>\<open>date.today()\<close> is the first argument; the upper end of
  Python's date range (year 9999) is outside the model.
\<close>

definition weekday :: "int \<Rightarrow> int" where
  "weekday d = (d + 6) mod 7"

definition getdaysuntil :: "int \<Rightarrow> int \<Rightarrow> int" where
  "getdaysuntil today theweekday =
     (let target_date = today + (theweekday - weekday today) mod 7
      in if today \<noteq> target_date then target_date - today else 7)"

section \<open>Address formatter (\<^verbatim>\<open>build_human_readable_address_message\<close>)\<close>

text \<open>The dictionary returned by the reverse geocoder: ten keys, each a string or \<^verbatim>\<open>None\<close>.\<close>

record response_data =
  city :: "string option"
  state :: "string option"
  country :: "string option"
  country_code :: "string option"
  district :: "string option"
  address :: "string option"
  zipcode :: "string option"
  county :: "string option"
  street :: "string option"
  street_number :: "string option"

definition build_human_readable_address_message :: "response_data \<Rightarrow> string" where
  "build_human_readable_address_message rd =
     (let m0 = [];
          m1 = (if truthy (city rd) then
                  (let a = the (city rd);
                       b = (if truthy (country_code rd) \<and> country_code rd = Some ''US''
                               \<and> truthy (state rd)
                            then a @ '','' @ the (state rd) else a)
                   in if truthy (zipcode rd) then b @ '','' @ the (zipcode rd) else b)
                else m0);
          m2 = (if \<not> truthy (city rd) \<and> truthy (county rd) then the (county rd) else m1)
      in if truthy (country_code rd) then m2 @ '';'' @ the (country_code rd) else m2)"

text \<open>
  The formatter as the specification words it: the state and the zip code are appended
  whenever they are present, whether the line starts with the city or with the county.
\<close>

definition spec_address_line :: "response_data \<Rightarrow> string" where
  "spec_address_line rd =
     (let name = (if truthy (city rd) then the (city rd)
                  else if truthy (county rd) then the (county rd) else []);
          s = (if country_code rd = Some ''US'' \<and> truthy (state rd)
               then name @ '','' @ the (state rd) else name);
          z = (if truthy (zipcode rd) then s @ '','' @ the (zipcode rd) else s)
      in if truthy (country_code rd) then z @ '';'' @ the (country_code rd) else z)"

section \<open>Collaborators, configuration and the variables of the parser\<close>

datatype timestamp = DatetimeMin | Timestamp int

text \<open>
  The 7-tuple returned by \<^verbatim>\<open>get_position_on_aprsfi\<close>: success, latitude, longitude,
  altitude, lasttime, comment, message_callsign.
\<close>

type_synonym position =
  "bool \<times> real \<times> real \<times> real \<times> timestamp \<times> string option \<times> string option"

text \<open>The query dictionary handed to \<^verbatim>\<open>get_geocode_geopy_data\<close>.\<close>

record geopy_query =
  q_city :: "string option"
  q_state :: "string option"
  q_country :: "string option"
  q_postalcode :: "string option"

definition no_query :: geopy_query where
  "no_query = \<lparr>q_city = None, q_state = None, q_country = None, q_postalcode = None\<rparr>"

text \<open>
  The modules \<^verbatim>\<open>aprsdotfi_modules\<close>, \<^verbatim>\<open>geopy_modules\<close>,
  \<^verbatim>\<open>airport_data_modules\<close>, \<^verbatim>\<open>maidenhead\<close> and \<^verbatim>\<open>mpad_config\<close> are not part of
  the parser; their functions and constants are parameters of the model, collected in one
  environment.  Each function is a function of its arguments: two calls with the same
  arguments during one parse return the same result.  \<open>py_float\<close> is Python's
  \<^verbatim>\<open>float()\<close>, \<open>None\<close> where it raises \<^verbatim>\<open>ValueError\<close>; \<open>float_str\<close> prints a
  float as an f-string does; \<open>today\<close> is the system date.  The categories of \<^verbatim>\<open>osm_supported_keyword_categories\<close> are taken as plain
  words, free of regular-expression operators.
\<close>

record env =
  get_position_on_aprsfi :: "string \<Rightarrow> position"
  get_reverse_geopy_data :: "real \<Rightarrow> real \<Rightarrow> string \<Rightarrow> bool \<Rightarrow> bool \<times> response_data"
  get_geocode_geopy_data :: "geopy_query \<Rightarrow> string \<Rightarrow> bool \<times> real \<times> real"
  validate_country :: "string \<Rightarrow> bool"
  validate_icao :: "string \<Rightarrow> bool \<times> real \<times> real \<times> bool \<times> string option"
  validate_iata :: "string \<Rightarrow> bool \<times> real \<times> real \<times> bool \<times> string option"
  get_nearest_icao :: "real \<Rightarrow> real \<Rightarrow> string option"
  maidenhead_to_location :: "string \<Rightarrow> real \<times> real"
  py_float :: "string \<Rightarrow> real option"
  float_str :: "real \<Rightarrow> string"
  today :: int
  osm_supported_keyword_categories :: "string list"
  mpad_str_morning :: string
  mpad_str_daytime :: string
  mpad_str_evening :: string
  mpad_str_night :: string

text \<open>
  The local variables of \<^verbatim>\<open>parse_input_message\<close> and of the keyword parsers it
  calls.  A keyword parser returns its flags and a dictionary of results; the model
  returns the parser's variables, from which the caller copies the keys of the
  dictionary.
\<close>

record vars = response_data +
  aprs_message :: string
  users_callsign :: string
  units :: string
  language :: string
  err :: bool
  latitude :: real
  longitude :: real
  altitude :: real
  users_latitude :: real
  users_longitude :: real
  date_offset :: int
  hour_offset :: int
  number_of_results :: int
  lasttime :: timestamp
  when_v :: "string option"
  when_daytime :: "string option"
  what :: "string option"
  cwop_id :: "string option"
  icao :: "string option"
  human_readable_message :: "string option"
  satellite :: "string option"
  repeater_band :: "string option"
  repeater_mode :: "string option"
  osm_special_phrase :: "string option"
  dapnet_message :: "string option"
  mail_recipient :: "string option"
  comment :: "string option"
  message_callsign :: "string option"
  force_outgoing_unicode_messages :: bool
  found_my_duty_roster :: bool
  found_when :: bool
  found_when_daytime :: bool
  found_my_keyword :: bool
  kw_err :: bool
  success :: bool
  regex_string :: rx
  regex_match :: "rx option"
  query :: geopy_query

definition errmsg_cannot_find_coords_for_address :: string where
  "errmsg_cannot_find_coords_for_address = ''Cannot find coordinates for requested address''"

definition errmsg_cannot_find_coords_for_user :: string where
  "errmsg_cannot_find_coords_for_user = ''Cannot find coordinates for callsign''"

definition errmsg_invalid_country :: string where
  "errmsg_invalid_country = ''Invalid country code (need ISO3166-a2)''"

definition errmsg_invalid_command :: string where
  "errmsg_invalid_command = ''Unknown command. See https://github.com/joergschultzelutter/mpad''"

definition errmsg_no_satellite_specified :: string where
  "errmsg_no_satellite_specified = ''No satellite specified''"

definition errmsg_no_cwop_specified :: string where
  "errmsg_no_cwop_specified = ''No cwop id specified''"

text \<open>
  The initial values of \<^verbatim>\<open>parse_input_message\<close>; the keyword parsers start from
  the same values for the variables they use.
\<close>

definition blank :: vars where
  "blank = \<lparr>city = None, state = None, country = None, country_code = None, district = None,
     address = None, zipcode = None, county = None, street = None, street_number = None,
     aprs_message = [], users_callsign = [], units = ''metric'', language = ''en'', err = False,
     latitude = 0, longitude = 0, altitude = 0, users_latitude = 0, users_longitude = 0,
     date_offset = - 1, hour_offset = - 1, number_of_results = 1, lasttime = DatetimeMin,
     when_v = None, when_daytime = None, what = None, cwop_id = None, icao = None,
     human_readable_message = None, satellite = None, repeater_band = None,
     repeater_mode = None, osm_special_phrase = None, dapnet_message = None,
     mail_recipient = None, comment = None, message_callsign = None,
     force_outgoing_unicode_messages = False, found_my_duty_roster = False,
     found_when = False, found_when_daytime = False, found_my_keyword = False, kw_err = False,
     success = False, regex_string = Eps, regex_match = None, query = no_query\<rparr>"

text \<open>
  \<^verbatim>\<open>(success, latitude, longitude, altitude, lasttime, comment, message_callsign) =
  get_position_on_aprsfi(...)\<close>
\<close>

definition assign_position :: "position \<Rightarrow> vars \<Rightarrow> vars" where
  "assign_position p v =
     (case p of (ok, lat, lon, alt, lt, cm, cs) \<Rightarrow>
        v\<lparr>success := ok, latitude := lat, longitude := lon, altitude := alt, lasttime := lt,
          comment := cm, message_callsign := cs\<rparr>)"

text \<open>The ten assignments \<^verbatim>\<open>city = response_data["city"]\<close> ... of the parsers.\<close>

definition assign_address :: "response_data \<Rightarrow> vars \<Rightarrow> vars" where
  "assign_address rd v =
     v\<lparr>city := city rd, state := state rd, country_code := country_code rd,
       country := country rd, district := district rd, address := address rd,
       zipcode := zipcode rd, county := county rd, street := street rd,
       street_number := street_number rd\<rparr>"

text \<open>\<^verbatim>\<open>str()\<close> of an integer.\<close>

function str_of_nat :: "nat \<Rightarrow> string" where
  "str_of_nat n = (if n < 10 then [char_of (48 + n)]
                   else str_of_nat (n div 10) @ [char_of (48 + n mod 10)])"
  by pat_completeness auto
termination
  by (relation "measure id") auto

definition str_of_int :: "int \<Rightarrow> string" where
  "str_of_int i = (if i < 0 then ''-'' @ str_of_nat (nat (- i)) else str_of_nat (nat i))"

section \<open>Modifiers: units, unicode, language, number of results\<close>

text \<open>\<^verbatim>\<open>get_units_based_on_users_callsign\<close>\<close>

definition get_units_based_on_users_callsign :: "string \<Rightarrow> string" where
  "get_units_based_on_users_callsign cs =
     (let u = ''metric'';
          u = (if re_search True rx_us_callsign cs \<noteq> None then ''imperial'' else u);
          u = (if re_search True rx_imperial_prefix cs \<noteq> None then ''imperial'' else u)
      in u)"

text \<open>
  \<^verbatim>\<open>parse_keyword_units\<close>: \<^verbatim>\<open>\b(mtr|metric)\b\<close>, then \<^verbatim>\<open>\b(imp|imperial)\b\<close> on what
  the first pattern left.
\<close>

definition parse_keyword_units :: "string \<Rightarrow> vars" where
  "parse_keyword_units msg =
     (let v = blank\<lparr>aprs_message := msg, found_my_keyword := False, units := ''metric''\<rparr>;
          v = (if re_search True rx_units_metric (aprs_message v) \<noteq> None
               then v\<lparr>units := ''metric'', found_my_keyword := True,
                      aprs_message := remove rx_units_metric (aprs_message v)\<rparr>
               else v);
          v = (if re_search True rx_units_imperial (aprs_message v) \<noteq> None
               then v\<lparr>units := ''imperial'', found_my_keyword := True,
                      aprs_message := remove rx_units_imperial (aprs_message v)\<rparr>
               else v)
      in v)"

text \<open>\<^verbatim>\<open>parse_keyword_unicode\<close>: \<^verbatim>\<open>\bunicode\b\<close>\<close>

definition parse_keyword_unicode :: "string \<Rightarrow> vars" where
  "parse_keyword_unicode msg =
     (let v = blank\<lparr>aprs_message := msg, found_my_keyword := False,
                     force_outgoing_unicode_messages := False\<rparr>
      in if re_search True rx_unicode (aprs_message v) \<noteq> None
         then v\<lparr>force_outgoing_unicode_messages := True,
                aprs_message := remove rx_unicode (aprs_message v), found_my_keyword := True\<rparr>
         else v)"

text \<open>\<^verbatim>\<open>parse_keyword_language\<close>: \<^verbatim>\<open>\b(lang|lng)\s*([a-zA-Z]{2})\b\<close>\<close>

definition parse_keyword_language :: "string \<Rightarrow> vars" where
  "parse_keyword_language msg =
     (let v = blank\<lparr>aprs_message := msg, found_my_keyword := False, language := ''en''\<rparr>
      in case re_search True rx_language (aprs_message v) of
           Some matches \<Rightarrow>
             v\<lparr>language := strip (lower (grp matches 2)),
               aprs_message := remove rx_language (aprs_message v), found_my_keyword := True\<rparr>
         | None \<Rightarrow> v)"

text \<open>\<^verbatim>\<open>parse_keyword_number_of_results\<close>: \<^verbatim>\<open>\btop(2|3|4|5)\b\<close>\<close>

definition parse_keyword_number_of_results :: "string \<Rightarrow> vars" where
  "parse_keyword_number_of_results msg =
     (let v = blank\<lparr>aprs_message := msg, found_my_keyword := False, number_of_results := 1\<rparr>
      in case re_search True rx_top (aprs_message v) of
           Some matches \<Rightarrow>
             v\<lparr>number_of_results := int_of_digits (grp matches 1),
               aprs_message := remove rx_top (aprs_message v), found_my_keyword := True\<rparr>
         | None \<Rightarrow> v)"

section \<open>Temporal extractors\<close>

text \<open>
  One block of \<^verbatim>\<open>parse_when\<close>:
  \<^verbatim>\<open>if not found_when: regex_string = ...; matches = re.findall(...);
  if matches: when = ...; found_when = True; date_offset = ...; regex_match = regex_string\<close>
\<close>

definition when_block :: "rx \<Rightarrow> string \<Rightarrow> int \<Rightarrow> vars \<Rightarrow> vars" where
  "when_block r w off v =
     (if \<not> found_when v then
        (let v = v\<lparr>regex_string := r\<rparr>
         in if re_search True r (aprs_message v) \<noteq> None
            then v\<lparr>when_v := Some w, found_when := True, date_offset := off,
                   regex_match := Some r\<rparr>
            else v)
      else v)"

text \<open>The \<^verbatim>\<open>calendar\<close> constants \<^verbatim>\<open>MONDAY\<close> ... \<^verbatim>\<open>SUNDAY\<close> are 0 ... 6.\<close>

definition when_days :: "vars \<Rightarrow> vars" where
  "when_days v =
     (if \<not> found_when v then
        (let v = v\<lparr>regex_string := rx_when_days\<rparr>
         in case re_search True rx_when_days (aprs_message v) of
              Some matches \<Rightarrow>
                (let n = int_of_digits (grp matches 1)
                 in v\<lparr>date_offset := n, regex_match := Some rx_when_days,
                      when_v := Some (str_of_int n @ ''d''), found_when := True\<rparr>)
            | None \<Rightarrow> v)
      else v)"

definition when_hours :: "vars \<Rightarrow> vars" where
  "when_hours v =
     (if \<not> found_when v then
        (let v = v\<lparr>regex_string := rx_when_hours\<rparr>
         in case re_search True rx_when_hours (aprs_message v) of
              Some matches \<Rightarrow>
                v\<lparr>when_v := Some ''hour'', found_when := True,
                  hour_offset := int_of_digits (grp matches 1),
                  regex_match := Some rx_when_hours\<rparr>
            | None \<Rightarrow> v)
      else v)"

text \<open>
  \<^verbatim>\<open>if found_when and regex_match: aprs_message = re.sub(regex_string, "",
  aprs_message).strip()\<close>, which also ends \<^verbatim>\<open>parse_when_daytime\<close> with its own flag.
\<close>

definition remove_found :: "bool \<Rightarrow> vars \<Rightarrow> vars" where
  "remove_found found v =
     (if found \<and> regex_match v \<noteq> None
      then v\<lparr>aprs_message := remove (regex_string v) (aprs_message v)\<rparr>
      else v)"

definition parse_when :: "env \<Rightarrow> string \<Rightarrow> vars" where
  "parse_when e msg =
     (let v = blank\<lparr>aprs_message := msg, found_when := False, when_v := None,
                     date_offset := - 1, hour_offset := - 1, regex_match := None\<rparr>;
          v = when_block (kw [''tonite'', ''tonight'']) ''today'' 0 v;
          v = when_block (kw [''today'']) ''today'' 0 v;
          v = when_block (kw [''tomorrow'']) ''tomorrow'' 1 v;
          v = when_block (kw [''monday'', ''mon'']) ''monday'' (getdaysuntil (today e) 0) v;
          v = when_block (kw [''tuesday'', ''tue'']) ''tuesday'' (getdaysuntil (today e) 1) v;
          v = when_block (kw [''wednesday'', ''wed'']) ''wednesday'' (getdaysuntil (today e) 2) v;
          v = when_block (kw [''thursday'', ''thu'']) ''thursday'' (getdaysuntil (today e) 3) v;
          v = when_block (kw [''friday'', ''fri'']) ''friday'' (getdaysuntil (today e) 4) v;
          v = when_block (kw [''saturday'', ''sat'']) ''saturday'' (getdaysuntil (today e) 5) v;
          v = when_block (kw [''sunday'', ''sun'']) ''sunday'' (getdaysuntil (today e) 6) v;
          v = when_block (kw [''current'', ''now'']) ''now'' 0 v;
          v = when_days v;
          v = when_hours v
      in remove_found (found_when v) v)"

text \<open>
  One block of \<^verbatim>\<open>parse_when_daytime\<close>; its guard is \<^verbatim>\<open>if not when_daytime:\<close>, a
  truth test on the string found so far.
\<close>

definition daytime_block :: "rx \<Rightarrow> string \<Rightarrow> vars \<Rightarrow> vars" where
  "daytime_block r w v =
     (if \<not> truthy (when_daytime v) then
        (let v = v\<lparr>regex_string := r\<rparr>
         in if re_search True r (aprs_message v) \<noteq> None
            then v\<lparr>when_daytime := Some w, found_when_daytime := True, regex_match := Some r\<rparr>
            else v)
      else v)"

definition parse_when_daytime :: "env \<Rightarrow> string \<Rightarrow> vars" where
  "parse_when_daytime e msg =
     (let v = blank\<lparr>aprs_message := msg, found_when_daytime := False, when_daytime := None,
                     regex_match := None\<rparr>;
          v = daytime_block (kw [''full'']) ''full'' v;
          v = daytime_block (kw [''morn'', ''morning'']) (mpad_str_morning e) v;
          v = daytime_block (kw [''day'', ''daytime'', ''noon'']) (mpad_str_daytime e) v;
          v = daytime_block (kw [''eve'', ''evening'']) (mpad_str_evening e) v;
          v = daytime_block (kw [''tonight'', ''tonite'', ''nite'', ''night'']) (mpad_str_night e) v
      in remove_found (found_when_daytime v) v)"

section \<open>Keyword parsers\<close>

definition apos :: string where
  "apos = [CHR 0x27]"

text \<open>
  The sender's position, of which only latitude and longitude are kept:
  \<^verbatim>\<open>(success, users_latitude, users_longitude, _, _, _, _) = get_position_on_aprsfi(...)\<close>
\<close>

definition assign_users_position :: "position \<Rightarrow> vars \<Rightarrow> vars" where
  "assign_users_position p v =
     (case p of (ok, lat, lon, alt, lt, cm, cs) \<Rightarrow>
        v\<lparr>success := ok, users_latitude := lat, users_longitude := lon\<rparr>)"

text \<open>
  The branch of \<^verbatim>\<open>parse_what_keyword_callsign_multi\<close> for \<^verbatim>\<open>metar\<close> and
  \<^verbatim>\<open>taf\<close>, after the position has been found.  The last message is built after
  \<^verbatim>\<open>icao = None\<close> and so prints \<^verbatim>\<open>None\<close>.
\<close>

definition csm_airport :: "env \<Rightarrow> vars \<Rightarrow> vars" where
  "csm_airport e v =
     (let v = v\<lparr>icao := get_nearest_icao e (latitude v) (longitude v)\<rparr>
      in if truthy (icao v) then
           (case validate_icao e (the (icao v)) of (ok, lat, lon, metar_capable, ic) \<Rightarrow>
              (let v = v\<lparr>success := ok, latitude := lat, longitude := lon, icao := ic\<rparr>
               in if ok then
                    (let v = v\<lparr>found_my_keyword := True,
                                human_readable_message :=
                                  Some (upper (py_str (what v)) @ '' for '' @ apos
                                        @ py_str (icao v) @ apos)\<rparr>
                     in if \<not> metar_capable
                        then v\<lparr>what := Some ''wx'', icao := None,
                               human_readable_message :=
                                 Some (''Wx for '' @ apos @ py_str None @ apos)\<rparr>
                        else v)
                  else v\<lparr>icao := None\<rparr>))
         else v)"

text \<open>The part of \<^verbatim>\<open>parse_what_keyword_callsign_multi\<close> under \<^verbatim>\<open>if found_my_keyword:\<close>.\<close>

definition csm_lookup :: "env \<Rightarrow> vars \<Rightarrow> vars" where
  "csm_lookup e v =
     (let v = assign_position (get_position_on_aprsfi e (the (message_callsign v))) v
      in if success v then
           (if what v = Some ''wx'' \<or> what v = Some ''forecast'' then
              (let v = v\<lparr>human_readable_message := Some (''Wx '' @ py_str (message_callsign v))\<rparr>
               in if what v = Some ''forecast'' then v\<lparr>what := Some ''wx''\<rparr> else v)
            else if what v = Some ''riseset'' then
              v\<lparr>human_readable_message := Some (''RiseSet '' @ py_str (message_callsign v))\<rparr>
            else if what v = Some ''sonde'' then
              (let v = v\<lparr>human_readable_message :=
                            Some (''Landing Pred. '' @ apos @ py_str (message_callsign v) @ apos)\<rparr>
               in assign_users_position (get_position_on_aprsfi e (users_callsign v)) v)
            else if what v = Some ''whereis'' then
              (let v = v\<lparr>human_readable_message := Some (''Pos '' @ py_str (message_callsign v))\<rparr>
               in case get_reverse_geopy_data e (latitude v) (longitude v) (language v) False of
                    (ok, rd) \<Rightarrow>
                      assign_users_position (get_position_on_aprsfi e (users_callsign v))
                        (assign_address rd (v\<lparr>success := ok\<rparr>)))
            else if what v = Some ''cwop'' then
              v\<lparr>human_readable_message := Some (''CWOP for '' @ py_str (message_callsign v)),
                what := Some ''cwop_by_latlon''\<rparr>
            else if what v = Some ''metar'' \<or> what v = Some ''taf'' then csm_airport e v
            else v)
         else v\<lparr>human_readable_message :=
                  Some (errmsg_cannot_find_coords_for_user @ '' '' @ py_str (message_callsign v)),
                kw_err := True\<rparr>)"

text \<open>
  \<^verbatim>\<open>parse_what_keyword_callsign_multi\<close>.  With \<^verbatim>\<open>K\<close> for
  \<^verbatim>\<open>(wx|forecast|whereis|riseset|cwop|metar|taf|sonde)\<close> and \<^verbatim>\<open>C\<close> for
  \<^verbatim>\<open>[a-zA-Z0-9]{1,3}[0-9][a-zA-Z0-9]{0,3}\<close> the four patterns are
  \<^verbatim>\<open>\bK\s*(C-[a-zA-Z0-9]{1,2})\b\<close>, \<^verbatim>\<open>\bK\s*(C)\b\<close>, \<^verbatim>\<open>\bK\s*(\w+)\b\<close> and
  \<^verbatim>\<open>\bK\b\<close>.  Each is tried when none before it has matched; \<open>target\<close> is the
  call sign the block assigns to \<^verbatim>\<open>message_callsign\<close>.
\<close>

definition csm_pattern :: "rx \<Rightarrow> (caps \<Rightarrow> vars \<Rightarrow> string) \<Rightarrow> vars \<Rightarrow> vars" where
  "csm_pattern r target v =
     (if \<not> found_my_keyword v then
        (case re_search True r (aprs_message v) of
           Some matches \<Rightarrow>
             v\<lparr>what := Some (lower (grp matches 1)),
               message_callsign := Some (target matches v),
               found_my_keyword := True,
               aprs_message := remove r (aprs_message v)\<rparr>
         | None \<Rightarrow> v)
      else v)"

definition parse_what_keyword_callsign_multi :: "env \<Rightarrow> string \<Rightarrow> string \<Rightarrow> string \<Rightarrow> vars" where
  "parse_what_keyword_callsign_multi e msg ucs lang =
     (let v = blank\<lparr>aprs_message := msg, users_callsign := ucs, language := lang\<rparr>;
          v = csm_pattern rx_csm_ssid (\<lambda>matches v. upper (grp matches 2)) v;
          v = csm_pattern rx_csm_callsign (\<lambda>matches v. upper (grp matches 2)) v;
          v = csm_pattern rx_csm_token (\<lambda>matches v. strip (upper (grp matches 2))) v;
          v = csm_pattern rx_csm_bare (\<lambda>matches v. users_callsign v) v
      in if found_my_keyword v then csm_lookup e v else v)"

text \<open>\<^verbatim>\<open>parse_what_keyword_whereami\<close>: \<^verbatim>\<open>\b(whereami)\b\<close>\<close>

definition parse_what_keyword_whereami :: "env \<Rightarrow> string \<Rightarrow> string \<Rightarrow> string \<Rightarrow> vars" where
  "parse_what_keyword_whereami e msg ucs lang =
     (let v = blank\<lparr>aprs_message := msg, users_callsign := ucs, language := lang\<rparr>
      in if re_search True (kw [''whereami'']) (aprs_message v) \<noteq> None then
           (let v = v\<lparr>what := Some ''whereis'', message_callsign := Some (users_callsign v),
                       found_my_keyword := True,
                       human_readable_message := Some (''Pos for '' @ users_callsign v),
                       aprs_message := remove (kw [''whereami'']) (aprs_message v)\<rparr>;
                v = assign_position (get_position_on_aprsfi e (users_callsign v)) v
            in if \<not> success v then
                 v\<lparr>kw_err := True,
                   human_readable_message :=
                     Some (errmsg_cannot_find_coords_for_user @ '' ''
                           @ py_str (message_callsign v))\<rparr>
               else
                 (case get_reverse_geopy_data e (latitude v) (longitude v) (language v) False of
                    (ok, rd) \<Rightarrow>
                      (let v = assign_address rd (v\<lparr>success := ok\<rparr>)
                       in v\<lparr>users_latitude := latitude v, users_longitude := longitude v\<rparr>)))
         else v)"

text \<open>
  \<^verbatim>\<open>parse_what_keyword_cwop_id\<close>: \<^verbatim>\<open>\bcwop\s*(\w+)\b\<close>.  The dictionary holds
  \<^verbatim>\<open>users_callsign\<close> under \<^verbatim>\<open>message_callsign\<close>.
\<close>

definition parse_what_keyword_cwop_id :: "string \<Rightarrow> string \<Rightarrow> vars" where
  "parse_what_keyword_cwop_id msg ucs =
     (let v = blank\<lparr>aprs_message := msg, users_callsign := ucs, message_callsign := Some ucs\<rparr>
      in case re_search True rx_cwop (aprs_message v) of
           Some matches \<Rightarrow>
             (let v = v\<lparr>cwop_id := Some (strip (upper (grp matches 1)))\<rparr>
              in if length (the (cwop_id v)) = 0
                 then v\<lparr>human_readable_message := Some errmsg_no_cwop_specified, kw_err := True\<rparr>
                 else v\<lparr>what := Some ''cwop_by_cwop_id'',
                        human_readable_message := Some (''CWOP for '' @ the (cwop_id v)),
                        found_my_keyword := True,
                        aprs_message := remove rx_cwop (aprs_message v)\<rparr>)
         | None \<Rightarrow> v)"

text \<open>
  \<^verbatim>\<open>parse_what_keyword_satpass\<close>: \<^verbatim>\<open>\b(vispass|satpass|satfreq)\s*(\w*(\S*))\b\<close>
\<close>

definition parse_what_keyword_satpass :: "env \<Rightarrow> string \<Rightarrow> string \<Rightarrow> vars" where
  "parse_what_keyword_satpass e msg ucs =
     (let v = blank\<lparr>aprs_message := msg, users_callsign := ucs\<rparr>
      in case re_search True rx_satpass (aprs_message v) of
           Some matches \<Rightarrow>
             (let what_tmp = lower (grp matches 1);
                  v = v\<lparr>satellite := Some (upper (strip (grp matches 2)))\<rparr>;
                  v = (if length (the (satellite v)) = 0
                       then v\<lparr>human_readable_message := Some errmsg_no_satellite_specified,
                              kw_err := True\<rparr>
                       else v)
              in if \<not> kw_err v then
                   (let v = assign_position (get_position_on_aprsfi e (users_callsign v)) v
                    in if success v then
                         v\<lparr>what := Some what_tmp,
                           human_readable_message :=
                             Some ((if what_tmp = ''satfreq'' then ''SatFreq for ''
                                    else ''SatPass for '') @ the (satellite v)),
                           found_my_keyword := True,
                           aprs_message := remove rx_satpass (aprs_message v)\<rparr>
                       else
                         v\<lparr>human_readable_message :=
                             Some (errmsg_cannot_find_coords_for_user @ '' '' @ users_callsign v),
                           kw_err := True\<rparr>)
                 else v)
         | None \<Rightarrow> v)"

text \<open>
  \<^verbatim>\<open>parse_what_keyword_repeater\<close>.  With \<^verbatim>\<open>M\<close> for
  \<^verbatim>\<open>(fm|dstar|d-star|dmr|c4fm|ysf|tetra|atv)\<close> and \<^verbatim>\<open>B\<close> for
  \<^verbatim>\<open>(\d.?\d*(?:cm|m)\b)\<close> the five patterns are \<^verbatim>\<open>\brepeater\s*M\s*B\b\<close>,
  \<^verbatim>\<open>\brepeater\s*B\s*M\b\<close>, \<^verbatim>\<open>\brepeater\s*M\b\<close>, \<^verbatim>\<open>\brepeater\s*B\b\<close> and
  \<^verbatim>\<open>\brepeater\b\<close>.  A tier is tried when none before it has matched; \<open>mode\<close> and
  \<open>band\<close> are what it assigns to \<^verbatim>\<open>repeater_mode\<close> and \<^verbatim>\<open>repeater_band\<close>.
\<close>

definition repeater_tier ::
  "rx \<Rightarrow> (caps \<Rightarrow> string option) \<Rightarrow> (caps \<Rightarrow> string option) \<Rightarrow> vars \<Rightarrow> vars" where
  "repeater_tier r mode band v =
     (if \<not> found_my_keyword v then
        (case re_search True r (aprs_message v) of
           Some matches \<Rightarrow>
             v\<lparr>repeater_mode := mode matches, repeater_band := band matches,
               found_my_keyword := True, aprs_message := remove r (aprs_message v)\<rparr>
         | None \<Rightarrow> v)
      else v)"

definition repeater_lookup :: "env \<Rightarrow> vars \<Rightarrow> vars" where
  "repeater_lookup e v =
     (let h = ''Repeater'';
          h = (if truthy (repeater_band v) then h @ '' '' @ the (repeater_band v) else h);
          h = (if truthy (repeater_mode v) then h @ '' '' @ the (repeater_mode v) else h);
          v = v\<lparr>what := Some ''repeater'', human_readable_message := Some h\<rparr>;
          v = assign_position (get_position_on_aprsfi e (users_callsign v)) v
      in if \<not> success v then
           v\<lparr>kw_err := True,
             human_readable_message :=
               Some (errmsg_cannot_find_coords_for_user @ '' '' @ py_str (message_callsign v))\<rparr>
         else v)"

definition parse_what_keyword_repeater :: "env \<Rightarrow> string \<Rightarrow> string \<Rightarrow> vars" where
  "parse_what_keyword_repeater e msg ucs =
     (let v = blank\<lparr>aprs_message := msg, users_callsign := ucs, message_callsign := Some ucs\<rparr>;
          v = repeater_tier rx_repeater_mode_band
                (\<lambda>matches. Some (strip (upper (grp matches 1))))
                (\<lambda>matches. Some (strip (lower (grp matches 2)))) v;
          v = repeater_tier rx_repeater_band_mode
                (\<lambda>matches. Some (upper (grp matches 2)))
                (\<lambda>matches. Some (lower (grp matches 1))) v;
          v = repeater_tier rx_repeater_mode
                (\<lambda>matches. Some (upper (grp matches 1))) (\<lambda>matches. None) v;
          v = repeater_tier rx_repeater_band
                (\<lambda>matches. None) (\<lambda>matches. Some (lower (grp matches 1))) v;
          v = repeater_tier rx_repeater (\<lambda>matches. None) (\<lambda>matches. None) v
      in if found_my_keyword v then repeater_lookup e v else v)"

text \<open>
  \<^verbatim>\<open>parse_what_keyword_osm_category\<close>: a loop over the supported categories, with
  the patterns \<^verbatim>\<open>\bosm\s*(category)\b\<close> and \<^verbatim>\<open>\b(category)\b\<close>; the first category
  that matches ends the loop.
\<close>

fun osm_loop :: "env \<Rightarrow> string list \<Rightarrow> vars \<Rightarrow> vars" where
  "osm_loop e [] v = v"
| "osm_loop e (osm_category # rest) v =
     (let v = (if re_search True (rx_osm_kw osm_category) (aprs_message v) \<noteq> None
               then v\<lparr>osm_special_phrase := Some osm_category, found_my_keyword := True,
                      aprs_message := remove (rx_osm_kw osm_category) (aprs_message v)\<rparr>
               else v);
          v = (if \<not> found_my_keyword v then
                 (if re_search True (rx_osm osm_category) (aprs_message v) \<noteq> None
                  then v\<lparr>osm_special_phrase := Some osm_category, found_my_keyword := True,
                         aprs_message := remove (rx_osm osm_category) (aprs_message v)\<rparr>
                  else v)
               else v)
      in if found_my_keyword v then
           (let v = v\<lparr>what := Some ''osm_special_phrase''\<rparr>;
                v = assign_position (get_position_on_aprsfi e (users_callsign v)) v
            in if \<not> success v then
                 v\<lparr>kw_err := True,
                   human_readable_message :=
                     Some (errmsg_cannot_find_coords_for_user @ '' ''
                           @ py_str (message_callsign v))\<rparr>
               else v)
         else osm_loop e rest v)"

definition parse_what_keyword_osm_category :: "env \<Rightarrow> string \<Rightarrow> string \<Rightarrow> vars" where
  "parse_what_keyword_osm_category e msg ucs =
     osm_loop e (osm_supported_keyword_categories e)
       (blank\<lparr>aprs_message := msg, users_callsign := ucs\<rparr>)"

text \<open>
  \<^verbatim>\<open>parse_what_keyword_dapnet\<close>: \<^verbatim>\<open>\b(dapnet|dapnethp)\s*(C-[a-zA-Z0-9]{1,2})\s*([\D\s]+)\<close>,
  then the same with \<^verbatim>\<open>(C)\<close>, \<^verbatim>\<open>C\<close> being the call sign pattern.
\<close>

definition parse_what_keyword_dapnet :: "string \<Rightarrow> string \<Rightarrow> vars" where
  "parse_what_keyword_dapnet msg ucs =
     (let v = blank\<lparr>aprs_message := msg, users_callsign := ucs\<rparr>;
          v = (case re_search True rx_dapnet_ssid (aprs_message v) of
                 Some matches \<Rightarrow>
                   v\<lparr>what := Some (lower (grp matches 1)),
                     message_callsign := Some (strip (upper (grp matches 2))),
                     dapnet_message := Some (strip (grp matches 3)),
                     aprs_message := remove rx_dapnet_ssid (aprs_message v),
                     found_my_keyword := True\<rparr>
               | None \<Rightarrow> v)
      in if \<not> found_my_keyword v then
           (case re_search True rx_dapnet (aprs_message v) of
              Some matches \<Rightarrow>
                v\<lparr>what := Some (lower (grp matches 1)),
                  message_callsign := Some (strip (upper (grp matches 2))),
                  dapnet_message := Some (strip (grp matches 3)),
                  found_my_keyword := True,
                  aprs_message := remove rx_dapnet (aprs_message v)\<rparr>
            | None \<Rightarrow> v)
         else v)"

text \<open>
  \<^verbatim>\<open>parse_what_keyword_fortuneteller\<close>:
  \<^verbatim>\<open>\b(fortuneteller|magic8ball|magic8|m8b)\b\<close>
\<close>

definition rx_fortuneteller :: rx where
  "rx_fortuneteller = kw [''fortuneteller'', ''magic8ball'', ''magic8'', ''m8b'']"

definition parse_what_keyword_fortuneteller :: "string \<Rightarrow> vars" where
  "parse_what_keyword_fortuneteller msg =
     (let v = blank\<lparr>aprs_message := msg\<rparr>
      in if re_search True rx_fortuneteller (aprs_message v) \<noteq> None
         then v\<lparr>what := Some ''fortuneteller'',
                aprs_message := remove rx_fortuneteller (aprs_message v),
                found_my_keyword := True\<rparr>
         else v)"

text \<open>
  \<^verbatim>\<open>parse_what_keyword_email_position_report\<close>:
  \<^verbatim>\<open>\b(posmsg|posrpt)\s*([a-zA-Z0-9_.+-]+@[a-zA-Z0-9-]+\.[a-zA-Z0-9-.]+$)\b\<close>
\<close>

definition parse_what_keyword_email_position_report ::
  "env \<Rightarrow> string \<Rightarrow> string \<Rightarrow> string \<Rightarrow> vars" where
  "parse_what_keyword_email_position_report e msg ucs lang =
     (let v = blank\<lparr>aprs_message := msg, users_callsign := ucs, language := lang\<rparr>
      in case re_search True rx_email (aprs_message v) of
           Some matches \<Rightarrow>
             (let v = v\<lparr>mail_recipient := Some (strip (grp matches 2)),
                         aprs_message := remove rx_email (aprs_message v),
                         found_my_keyword := True, what := Some ''email_position_report'',
                         message_callsign := Some (users_callsign v),
                         human_readable_message :=
                           Some (''Email position for '' @ users_callsign v)\<rparr>;
                  v = assign_position (get_position_on_aprsfi e (users_callsign v)) v
              in if \<not> success v then
                   v\<lparr>kw_err := True,
                     human_readable_message :=
                       Some (errmsg_cannot_find_coords_for_user @ '' ''
                             @ py_str (message_callsign v))\<rparr>
                 else
                   (case get_reverse_geopy_data e (latitude v) (longitude v) (language v) True of
                      (ok, rd) \<Rightarrow>
                        (let v = assign_address rd (v\<lparr>success := ok\<rparr>)
                         in v\<lparr>users_latitude := latitude v, users_longitude := longitude v\<rparr>)))
         | None \<Rightarrow> v)"

text \<open>
  \<^verbatim>\<open>parse_what_keyword_metar\<close>.  The part shared by its four airport-code blocks:
  \<^verbatim>\<open>what = "metar"; found_my_keyword = True; human_readable_message = f"METAR for '{icao}'";
  if not metar_capable: what = "wx"; human_readable_message = f"Wx for '{icao}'"\<close>
\<close>

definition airport_found :: "bool \<Rightarrow> vars \<Rightarrow> vars" where
  "airport_found metar_capable v =
     (let v = v\<lparr>what := Some ''metar'', found_my_keyword := True,
                 human_readable_message :=
                   Some (''METAR for '' @ apos @ py_str (icao v) @ apos)\<rparr>
      in if \<not> metar_capable
         then v\<lparr>what := Some ''wx'',
                human_readable_message := Some (''Wx for '' @ apos @ py_str (icao v) @ apos)\<rparr>
         else v)"

text \<open>\<^verbatim>\<open>(success, latitude, longitude, metar_capable, icao) = validate_icao(...)\<close>\<close>

definition assign_airport :: "bool \<times> real \<times> real \<times> bool \<times> string option \<Rightarrow> vars \<Rightarrow> vars" where
  "assign_airport a v =
     (case a of (ok, lat, lon, metar_capable, ic) \<Rightarrow>
        v\<lparr>success := ok, latitude := lat, longitude := lon, icao := ic\<rparr>)"

definition metar_capable_of :: "bool \<times> real \<times> real \<times> bool \<times> string option \<Rightarrow> bool" where
  "metar_capable_of a = (case a of (ok, lat, lon, metar_capable, ic) \<Rightarrow> metar_capable)"

text \<open>\<^verbatim>\<open>\b(icao)\s*([a-zA-Z0-9]{4})\b\<close>\<close>

definition metar_icao_kw :: "env \<Rightarrow> vars \<Rightarrow> vars" where
  "metar_icao_kw e v =
     (case re_search True rx_icao_kw (aprs_message v) of
        Some matches \<Rightarrow>
          (let v = v\<lparr>icao := Some (grp matches 2),
                      aprs_message := remove rx_icao_kw (aprs_message v)\<rparr>;
               a = validate_icao e (the (icao v));
               v = assign_airport a v
           in if success v then airport_found (metar_capable_of a) v
              else v\<lparr>human_readable_message :=
                       Some (''Cannot locate airport ICAO code '' @ py_str (icao v)),
                     icao := None, kw_err := True\<rparr>)
      | None \<Rightarrow> v)"

text \<open>\<^verbatim>\<open>\b(iata)\s*([a-zA-Z0-9]{3})\b\<close>\<close>

definition metar_iata_kw :: "env \<Rightarrow> vars \<Rightarrow> vars" where
  "metar_iata_kw e v =
     (if \<not> found_my_keyword v \<and> \<not> kw_err v then
        (case re_search True rx_iata_kw (aprs_message v) of
           Some matches \<Rightarrow>
             (let iata = grp matches 2;
                  v = v\<lparr>aprs_message := remove rx_iata_kw (aprs_message v)\<rparr>;
                  a = validate_iata e iata;
                  v = assign_airport a v
              in if success v then airport_found (metar_capable_of a) v
                 else v\<lparr>human_readable_message :=
                          Some (''Cannot locate airport IATA code '' @ iata),
                        icao := None, kw_err := True\<rparr>)
         | None \<Rightarrow> v)
      else v)"

text \<open>
  The two blocks without keyword, \<^verbatim>\<open>\b([a-zA-Z0-9]{4})\b\<close> with \<^verbatim>\<open>validate_icao\<close>
  and \<^verbatim>\<open>\b([a-zA-Z0-9]{3})\b\<close> with \<^verbatim>\<open>validate_iata\<close>, skipped when the message holds
  a comma or a semicolon.
\<close>

definition metar_guess ::
  "rx \<Rightarrow> (string \<Rightarrow> bool \<times> real \<times> real \<times> bool \<times> string option) \<Rightarrow> vars \<Rightarrow> vars" where
  "metar_guess r validate v =
     (if \<not> found_my_keyword v \<and> \<not> kw_err v then
        (if CHR '','' \<notin> set (aprs_message v) \<and> CHR '';'' \<notin> set (aprs_message v) then
           (case re_search True r (aprs_message v) of
              Some matches \<Rightarrow>
                (let a = validate (strip (grp matches 1));
                     v = assign_airport a v
                 in if success v then
                      (let v = v\<lparr>what := Some ''metar'', found_my_keyword := True,
                                  human_readable_message :=
                                    Some (''METAR for '' @ apos @ py_str (icao v) @ apos),
                                  aprs_message := remove r (aprs_message v)\<rparr>
                       in if \<not> metar_capable_of a
                          then v\<lparr>what := Some ''wx'',
                                 human_readable_message :=
                                   Some (''Wx for '' @ apos @ py_str (icao v) @ apos)\<rparr>
                          else v)
                    else v)
            | None \<Rightarrow> v)
         else v)
      else v)"

text \<open>
  The blocks for the bare keywords \<^verbatim>\<open>\b(metar)\b\<close> and \<^verbatim>\<open>\b(taf)\b\<close>: the airport
  nearest to the sender.  \<open>w\<close> is \<^verbatim>\<open>metar\<close> or \<^verbatim>\<open>taf\<close>, \<open>label\<close> its upper case.
\<close>

definition metar_nearest :: "env \<Rightarrow> string \<Rightarrow> string \<Rightarrow> vars \<Rightarrow> vars" where
  "metar_nearest e w label v =
     (if \<not> found_my_keyword v \<and> \<not> kw_err v then
        (if re_search True (kw [w]) (aprs_message v) \<noteq> None then
           (let v = assign_position (get_position_on_aprsfi e (users_callsign v)) v
            in if success v then
                 (let v = v\<lparr>icao := get_nearest_icao e (latitude v) (longitude v)\<rparr>
                  in if truthy (icao v) then
                       (let a = validate_icao e (the (icao v));
                            v = assign_airport a v
                        in if success v then
                             (let v = v\<lparr>what := Some w,
                                         human_readable_message :=
                                           Some (label @ '' for '' @ apos @ py_str (icao v) @ apos),
                                         found_my_keyword := True,
                                         aprs_message := remove (kw [w]) (aprs_message v)\<rparr>
                              in if \<not> metar_capable_of a
                                 then v\<lparr>what := Some ''wx'', icao := None,
                                        human_readable_message :=
                                          Some (''Wx for '' @ apos @ py_str None @ apos)\<rparr>
                                 else v)
                           else v)
                     else v)
               else v)
         else v)
      else v)"

definition parse_what_keyword_metar :: "env \<Rightarrow> string \<Rightarrow> string \<Rightarrow> vars" where
  "parse_what_keyword_metar e msg ucs =
     (let v = blank\<lparr>aprs_message := msg, users_callsign := ucs\<rparr>;
          v = metar_icao_kw e v;
          v = metar_iata_kw e v;
          v = metar_guess rx_icao (validate_icao e) v;
          v = metar_guess rx_iata (validate_iata e) v;
          v = metar_nearest e ''metar'' ''METAR'' v;
          v = metar_nearest e ''taf'' ''TAF'' v
      in v\<lparr>message_callsign := Some (users_callsign v)\<rparr>)"

text \<open>
  \<^verbatim>\<open>parse_what_keyword_wx\<close>, block by block.  The address block tries
  \<^verbatim>\<open>\b([\D\s]+),\s*?(\w+);\s*([a-zA-Z]{2})\b\<close>, \<^verbatim>\<open>\b([\D\s]+),\s*?(\w+)\b\<close> and
  \<^verbatim>\<open>\b([\D\s]+);\s*([a-zA-Z]{2})\b\<close>, then geocodes what it found.
\<close>

definition wx_city_state_country :: "vars \<Rightarrow> vars" where
  "wx_city_state_country v =
     (case re_search True rx_city_state_country (aprs_message v) of
        Some matches \<Rightarrow>
          (let v = v\<lparr>city := Some (strip (capwords (grp matches 1))),
                      country_code := Some (strip (upper (grp matches 3))),
                      state := Some (strip (upper (grp matches 2))),
                      aprs_message := remove rx_city_state_country (aprs_message v)\<rparr>
           in v\<lparr>query := \<lparr>q_city = city v, q_state = state v,
                           q_country = country_code v, q_postalcode = None\<rparr>,
                found_my_keyword := True\<rparr>)
      | None \<Rightarrow> v)"

definition wx_city_state :: "vars \<Rightarrow> vars" where
  "wx_city_state v =
     (if \<not> found_my_keyword v \<and> \<not> kw_err v then
        (case re_search True rx_city_state (aprs_message v) of
           Some matches \<Rightarrow>
             (let v = v\<lparr>country_code := Some ''US'', country := Some ''United States'',
                         city := Some (strip (capwords (grp matches 1))),
                         state := Some (strip (upper (grp matches 2))),
                         aprs_message := remove rx_city_state (aprs_message v)\<rparr>
              in v\<lparr>query := \<lparr>q_city = city v, q_state = state v,
                              q_country = country_code v, q_postalcode = None\<rparr>,
                   found_my_keyword := True\<rparr>)
         | None \<Rightarrow> v)
      else v)"

definition wx_city_country :: "vars \<Rightarrow> vars" where
  "wx_city_country v =
     (if \<not> found_my_keyword v \<and> \<not> kw_err v then
        (case re_search True rx_city_country (aprs_message v) of
           Some matches \<Rightarrow>
             (let v = v\<lparr>city := Some (strip (capwords (grp matches 1))),
                         country_code := Some (strip (upper (grp matches 2))),
                         state := None\<rparr>
              in v\<lparr>query := \<lparr>q_city = city v, q_state = None,
                              q_country = country_code v, q_postalcode = None\<rparr>,
                   aprs_message := remove rx_city_country (aprs_message v),
                   found_my_keyword := True\<rparr>)
         | None \<Rightarrow> v)
      else v)"

text \<open>The country code is validated and the address is geocoded.\<close>

definition wx_address_geocode :: "env \<Rightarrow> vars \<Rightarrow> vars" where
  "wx_address_geocode e v =
     (let v = (if \<not> validate_country e (the (country_code v))
               then v\<lparr>human_readable_message :=
                        Some (errmsg_invalid_country @ '': '' @ apos
                              @ py_str (country_code v) @ apos),
                      kw_err := True\<rparr>
               else v)
      in if \<not> kw_err v then
           (case get_geocode_geopy_data e (query v) (language v) of (ok, lat, lon) \<Rightarrow>
              (let v = v\<lparr>success := ok, latitude := lat, longitude := lon\<rparr>
               in if ok then
                    (let h = py_str (city v);
                         h = (if truthy (state v) \<and> country_code v = Some ''US''
                              then h @ '','' @ py_str (state v) else h);
                         h = (if truthy (country_code v) \<and> country_code v \<noteq> Some ''US''
                              then h @ '';'' @ py_str (country_code v) else h)
                     in v\<lparr>what := Some ''wx'', human_readable_message := Some h\<rparr>)
                  else v\<lparr>kw_err := True,
                         human_readable_message :=
                           Some errmsg_cannot_find_coords_for_address\<rparr>))
         else v)"

definition wx_address :: "env \<Rightarrow> vars \<Rightarrow> vars" where
  "wx_address e v =
     (let v = wx_city_state_country v;
          v = wx_city_state v;
          v = wx_city_country v
      in if found_my_keyword v \<and> \<not> kw_err v then wx_address_geocode e v else v)"

text \<open>
  The zip code block: \<^verbatim>\<open>\b(zip)\s*([a-zA-Z0-9-( )]{3,10});\s*([a-zA-Z]{2})\b\<close>,
  \<^verbatim>\<open>\b(zip)\s*([0-9]{5})\b\<close> and \<^verbatim>\<open>\b([a-zA-Z0-9-( )]{3,10});\s*([a-zA-Z]{2})\b\<close>.
  After the reverse lookup seven of the ten address fields are taken over.
\<close>

definition wx_zip_country_kw :: "vars \<Rightarrow> vars" where
  "wx_zip_country_kw v =
     (case re_search True rx_zip_country_kw (aprs_message v) of
        Some matches \<Rightarrow>
          (let v = v\<lparr>zipcode := Some (strip (grp matches 2)), state := None,
                      country_code := Some (strip (upper (grp matches 3))),
                      aprs_message := remove rx_zip_country_kw (aprs_message v),
                      found_my_keyword := True\<rparr>
           in v\<lparr>query := \<lparr>q_city = None, q_state = None,
                           q_country = country_code v, q_postalcode = zipcode v\<rparr>\<rparr>)
      | None \<Rightarrow> v)"

definition wx_zip5_kw :: "vars \<Rightarrow> vars" where
  "wx_zip5_kw v =
     (if \<not> found_my_keyword v then
        (case re_search True rx_zip5_kw (aprs_message v) of
           Some matches \<Rightarrow>
             (let v = v\<lparr>state := None, country_code := Some ''US'',
                         country := Some ''United States'',
                         zipcode := Some (strip (grp matches 2)),
                         aprs_message := remove rx_zip5_kw (aprs_message v),
                         found_my_keyword := True\<rparr>
              in v\<lparr>query := \<lparr>q_city = None, q_state = None,
                              q_country = country_code v, q_postalcode = zipcode v\<rparr>\<rparr>)
         | None \<Rightarrow> v)
      else v)"

definition wx_zip_country :: "vars \<Rightarrow> vars" where
  "wx_zip_country v =
     (if \<not> found_my_keyword v then
        (let v = v\<lparr>query := no_query\<rparr>
         in case re_search True rx_zip_country (aprs_message v) of
              Some matches \<Rightarrow>
                (let v = v\<lparr>zipcode := Some (strip (grp matches 1)), state := None,
                            country_code := Some (strip (upper (grp matches 2))),
                            aprs_message := remove rx_zip_country (aprs_message v),
                            found_my_keyword := True\<rparr>
                 in v\<lparr>query := \<lparr>q_city = None, q_state = None,
                                 q_country = country_code v, q_postalcode = zipcode v\<rparr>\<rparr>)
            | None \<Rightarrow> v)
      else v)"

definition wx_zip_geocode :: "env \<Rightarrow> vars \<Rightarrow> vars" where
  "wx_zip_geocode e v =
     (if \<not> validate_country e (the (country_code v)) then
        v\<lparr>human_readable_message :=
            Some (errmsg_invalid_country @ '': '' @ apos @ py_str (country_code v) @ apos),
          kw_err := True, what := None\<rparr>
      else
        (case get_geocode_geopy_data e (query v) (language v) of (ok, lat, lon) \<Rightarrow>
           (let v = v\<lparr>success := ok, latitude := lat, longitude := lon\<rparr>
            in if ok then
                 (let v = v\<lparr>what := Some ''wx'',
                             human_readable_message :=
                               Some (''Zip '' @ py_str (zipcode v) @ '';''
                                     @ py_str (country_code v))\<rparr>
                  in case get_reverse_geopy_data e (latitude v) (longitude v)
                            (language v) False of
                       (ok2, rd) \<Rightarrow>
                         (let v = v\<lparr>success := ok2\<rparr>
                          in if ok2 then
                               v\<lparr>city := city rd, state := state rd,
                                 country_code := country_code rd, country := country rd,
                                 county := county rd, street := street rd,
                                 street_number := street_number rd,
                                 human_readable_message :=
                                   Some (build_human_readable_address_message rd)\<rparr>
                             else v))
               else v\<lparr>kw_err := True,
                      human_readable_message :=
                        Some errmsg_cannot_find_coords_for_address\<rparr>)))"

definition wx_zip :: "env \<Rightarrow> vars \<Rightarrow> vars" where
  "wx_zip e v =
     (if \<not> found_my_keyword v \<and> \<not> kw_err v then
        (let v = v\<lparr>query := no_query\<rparr>;
             v = wx_zip_country_kw v;
             v = wx_zip5_kw v;
             v = wx_zip_country v
         in if found_my_keyword v then wx_zip_geocode e v else v)
      else v)"

text \<open>
  The reverse lookup that ends three of the blocks: on success all ten address fields are
  taken over and the message is the formatted address.
\<close>

definition wx_reverse :: "env \<Rightarrow> vars \<Rightarrow> vars" where
  "wx_reverse e v =
     (case get_reverse_geopy_data e (latitude v) (longitude v) (language v) False of
        (ok, rd) \<Rightarrow>
          (let v = v\<lparr>success := ok\<rparr>
           in if ok then
                (assign_address rd v)\<lparr>human_readable_message :=
                                        Some (build_human_readable_address_message rd)\<rparr>
              else v))"

text \<open>A bare five-digit zip code, \<^verbatim>\<open>\b([0-9]{5})\b\<close>, taken as a US one.\<close>

definition wx_zip5 :: "env \<Rightarrow> vars \<Rightarrow> vars" where
  "wx_zip5 e v =
     (if \<not> found_my_keyword v \<and> \<not> kw_err v then
        (case re_search True rx_zip5 (aprs_message v) of
           Some matches \<Rightarrow>
             (let v = v\<lparr>zipcode := Some (grp matches 1), state := None,
                         country_code := Some ''US'', country := Some ''United States'',
                         aprs_message := remove rx_zip5 (aprs_message v),
                         found_my_keyword := True, what := Some ''wx''\<rparr>;
                  v = v\<lparr>human_readable_message :=
                           Some (''Zip '' @ py_str (zipcode v) @ '';'' @ py_str (country_code v))\<rparr>
              in case get_geocode_geopy_data e
                        \<lparr>q_city = None, q_state = None, q_country = country_code v,
                         q_postalcode = zipcode v\<rparr> (language v) of
                   (ok, lat, lon) \<Rightarrow>
                     (let v = v\<lparr>success := ok, latitude := lat, longitude := lon\<rparr>
                      in if \<not> ok then
                           v\<lparr>kw_err := True,
                             human_readable_message := Some errmsg_cannot_find_coords_for_address\<rparr>
                         else wx_reverse e v))
         | None \<Rightarrow> v)
      else v)"

text \<open>
  Maidenhead locators: \<^verbatim>\<open>\b(grid|mh)\s*([a-zA-Z]{2}[0-9]{2}([a-zA-Z]{2})?)\b\<close>, then
  \<^verbatim>\<open>\b[a-zA-Z]{2}[0-9]{2}([a-zA-Z]{2})?\b\<close>; \<open>g\<close> is the group that holds the locator.
\<close>

definition wx_grid_block :: "env \<Rightarrow> rx \<Rightarrow> nat \<Rightarrow> vars \<Rightarrow> vars" where
  "wx_grid_block e r g v =
     (if \<not> found_my_keyword v \<and> \<not> kw_err v then
        (case re_search True r (aprs_message v) of
           Some matches \<Rightarrow>
             (case maidenhead_to_location e (strip (grp matches g)) of (lat, lon) \<Rightarrow>
                v\<lparr>latitude := lat, longitude := lon, found_my_keyword := True,
                  human_readable_message := Some (grp matches g), what := Some ''wx'',
                  aprs_message := remove r (aprs_message v)\<rparr>)
         | None \<Rightarrow> v)
      else v)"

text \<open>
  Latitude and longitude, \<^verbatim>\<open>\b([\d\.,\-]+)\/([\d\.,\-]+)\b\<close>.  When either
  \<^verbatim>\<open>float()\<close> raises, both values are set to 0 and the block ends in an error.
\<close>

definition wx_latlon :: "env \<Rightarrow> vars \<Rightarrow> vars" where
  "wx_latlon e v =
     (if \<not> found_my_keyword v \<and> \<not> kw_err v then
        (case re_search True rx_latlon (aprs_message v) of
           Some matches \<Rightarrow>
             (let v = (case (py_float e (grp matches 1), py_float e (grp matches 2)) of
                         (Some lat, Some lon) \<Rightarrow>
                           v\<lparr>success := True, latitude := lat, longitude := lon\<rparr>
                       | _ \<Rightarrow> v\<lparr>latitude := 0, longitude := 0, success := False\<rparr>)
              in if success v then
                   (case get_reverse_geopy_data e (latitude v) (longitude v) (language v) False of
                      (ok, rd) \<Rightarrow>
                        (let v = v\<lparr>success := ok\<rparr>;
                             v = (if ok then
                                    (assign_address rd v)\<lparr>human_readable_message :=
                                        Some (build_human_readable_address_message rd)\<rparr>
                                  else
                                    v\<lparr>human_readable_message :=
                                        Some (''lat '' @ float_str e (latitude v) @ ''/lon ''
                                              @ float_str e (longitude v))\<rparr>)
                         in v\<lparr>aprs_message := remove rx_latlon (aprs_message v),
                              found_my_keyword := True, what := Some ''wx''\<rparr>))
                 else v\<lparr>human_readable_message := Some ''Error while parsing coordinates'',
                        kw_err := True\<rparr>)
         | None \<Rightarrow> v)
      else v)"

text \<open>
  A call sign, \<^verbatim>\<open>\b([a-zA-Z0-9]{1,3}[0-9][a-zA-Z0-9]{0,3}-[0-9]{1,2})\b\<close> or
  \<^verbatim>\<open>\b([a-zA-Z0-9]{1,3}[0-9][a-zA-Z0-9]{0,3})\b\<close>, whose position is looked up.
\<close>

definition wx_callsign :: "env \<Rightarrow> vars \<Rightarrow> vars" where
  "wx_callsign e v =
     (if \<not> found_my_keyword v \<and> \<not> kw_err v then
        (let v = (case re_search True rx_wx_callsign_ssid (aprs_message v) of
                    Some matches \<Rightarrow>
                      v\<lparr>message_callsign := Some (upper (grp matches 0)),
                        found_my_keyword := True,
                        aprs_message := remove rx_wx_callsign_ssid (aprs_message v)\<rparr>
                  | None \<Rightarrow>
                      (case re_search True rx_wx_callsign (aprs_message v) of
                         Some matches \<Rightarrow>
                           v\<lparr>message_callsign := Some (upper (grp matches 0)),
                             aprs_message := remove rx_wx_callsign (aprs_message v),
                             found_my_keyword := True\<rparr>
                       | None \<Rightarrow> v))
         in if found_my_keyword v \<and> truthy (message_callsign v) then
              (let v = assign_position (get_position_on_aprsfi e (the (message_callsign v))) v
               in if \<not> success v then
                    v\<lparr>human_readable_message :=
                        Some (errmsg_cannot_find_coords_for_user @ '' ''
                              @ py_str (message_callsign v)),
                      kw_err := True\<rparr>
                  else
                    wx_reverse e
                      (v\<lparr>human_readable_message := message_callsign v, what := Some ''wx''\<rparr>))
            else v)
      else v)"

definition parse_what_keyword_wx :: "env \<Rightarrow> string \<Rightarrow> string \<Rightarrow> string \<Rightarrow> vars" where
  "parse_what_keyword_wx e msg ucs lang =
     (let v = blank\<lparr>aprs_message := msg, users_callsign := ucs, language := lang,
                     message_callsign := Some ucs\<rparr>;
          v = wx_address e v;
          v = wx_zip e v;
          v = wx_zip5 e v;
          v = wx_grid_block e rx_grid_kw 2 v;
          v = wx_grid_block e rx_grid 0 v;
          v = wx_latlon e v
      in wx_callsign e v)"

section \<open>The parser (\<^verbatim>\<open>parse_input_message\<close>)\<close>

text \<open>
  \<^verbatim>\<open>parse_input_message\<close> is a sequence of blocks that read and assign its local
  variables.  Each block is a function on the variables; the parser runs them in order.
\<close>

definition s_units :: "vars \<Rightarrow> vars" where
  "s_units st =
     (let st = st\<lparr>units := get_units_based_on_users_callsign (users_callsign st)\<rparr>;
          r = parse_keyword_units (aprs_message st)
      in if found_my_keyword r then st\<lparr>aprs_message := aprs_message r, units := units r\<rparr>
         else st)"

definition s_unicode :: "vars \<Rightarrow> vars" where
  "s_unicode st =
     (let r = parse_keyword_unicode (aprs_message st)
      in if found_my_keyword r
         then st\<lparr>aprs_message := aprs_message r,
                 force_outgoing_unicode_messages := force_outgoing_unicode_messages r\<rparr>
         else st)"

definition s_language :: "vars \<Rightarrow> vars" where
  "s_language st =
     (let r = parse_keyword_language (aprs_message st)
      in if found_my_keyword r
         then st\<lparr>aprs_message := aprs_message r, language := language r\<rparr>
         else st)"

definition s_number_of_results :: "vars \<Rightarrow> vars" where
  "s_number_of_results st =
     (let r = parse_keyword_number_of_results (aprs_message st)
      in if found_my_keyword r
         then st\<lparr>aprs_message := aprs_message r, number_of_results := number_of_results r\<rparr>
         else st)"

text \<open>The help pages, \<^verbatim>\<open>^(info|help)$\<close>: only when this is the whole message.\<close>

definition s_help :: "vars \<Rightarrow> vars" where
  "s_help st =
     (if \<not> found_my_duty_roster st \<and> \<not> err st then
        (if re_search True rx_help (aprs_message st) \<noteq> None \<and> \<not> truthy (what st)
         then st\<lparr>what := Some ''help'', found_my_duty_roster := True\<rparr>
         else st)
      else st)"

definition s_when :: "env \<Rightarrow> vars \<Rightarrow> vars" where
  "s_when e st =
     (if \<not> found_when st \<and> \<not> err st \<and> \<not> found_my_duty_roster st then
        (let r = parse_when e (aprs_message st);
             st = st\<lparr>found_when := found_when r, when_v := when_v r,
                      date_offset := date_offset r, hour_offset := hour_offset r\<rparr>
         in if found_when st then st\<lparr>aprs_message := aprs_message r\<rparr> else st)
      else st)"

definition s_when_daytime :: "env \<Rightarrow> vars \<Rightarrow> vars" where
  "s_when_daytime e st =
     (if \<not> found_when_daytime st \<and> \<not> err st \<and> \<not> found_my_duty_roster st then
        (let r = parse_when_daytime e (aprs_message st);
             st = st\<lparr>found_when_daytime := found_when_daytime r, when_daytime := when_daytime r\<rparr>
         in if found_when_daytime st then st\<lparr>aprs_message := aprs_message r\<rparr> else st)
      else st)"

text \<open>
  A keyword rule:
  \<^verbatim>\<open>if not found_my_duty_roster and not err:
      found_my_keyword, kw_err, parser_rd = parse_what_keyword_...(...)
      if found_my_keyword or kw_err:
          found_my_duty_roster = found_my_keyword; err = kw_err; ... = parser_rd[...]\<close>
  \<open>h\<close> calls the keyword parser on the current variables, \<open>copy\<close> takes the keys of
  its dictionary over.
\<close>

definition rule_step :: "(vars \<Rightarrow> vars) \<Rightarrow> (vars \<Rightarrow> vars \<Rightarrow> vars) \<Rightarrow> vars \<Rightarrow> vars" where
  "rule_step h copy st =
     (if \<not> found_my_duty_roster st \<and> \<not> err st then
        (let r = h st
         in if found_my_keyword r \<or> kw_err r
            then copy r (st\<lparr>found_my_duty_roster := found_my_keyword r, err := kw_err r\<rparr>)
            else st)
      else st)"

definition copy_address :: "vars \<Rightarrow> vars \<Rightarrow> vars" where
  "copy_address r st =
     st\<lparr>city := city r, state := state r, county := county r, country := country r,
        country_code := country_code r, district := district r, address := address r,
        zipcode := zipcode r, street := street r, street_number := street_number r\<rparr>"

definition copy_csm :: "vars \<Rightarrow> vars \<Rightarrow> vars" where
  "copy_csm r st =
     (copy_address r
        (st\<lparr>latitude := latitude r, longitude := longitude r,
            users_latitude := users_latitude r, users_longitude := users_longitude r,
            lasttime := lasttime r, comment := comment r, altitude := altitude r,
            what := what r, human_readable_message := human_readable_message r,
            aprs_message := aprs_message r, message_callsign := message_callsign r\<rparr>))
     \<lparr>icao := icao r\<rparr>"

definition copy_whereami :: "vars \<Rightarrow> vars \<Rightarrow> vars" where
  "copy_whereami r st =
     copy_address r
       (st\<lparr>latitude := latitude r, longitude := longitude r,
           users_latitude := users_latitude r, users_longitude := users_longitude r,
           lasttime := lasttime r, comment := comment r, altitude := altitude r,
           what := what r, human_readable_message := human_readable_message r,
           aprs_message := aprs_message r, message_callsign := message_callsign r\<rparr>)"

definition copy_cwop_id :: "vars \<Rightarrow> vars \<Rightarrow> vars" where
  "copy_cwop_id r st =
     st\<lparr>what := what r, message_callsign := message_callsign r, cwop_id := cwop_id r,
        human_readable_message := human_readable_message r, aprs_message := aprs_message r\<rparr>"

definition copy_satpass :: "vars \<Rightarrow> vars \<Rightarrow> vars" where
  "copy_satpass r st =
     st\<lparr>what := what r, latitude := latitude r, longitude := longitude r,
        altitude := altitude r, lasttime := lasttime r, comment := comment r,
        message_callsign := message_callsign r, satellite := satellite r,
        human_readable_message := human_readable_message r, aprs_message := aprs_message r\<rparr>"

definition copy_repeater :: "vars \<Rightarrow> vars \<Rightarrow> vars" where
  "copy_repeater r st =
     st\<lparr>what := what r, latitude := latitude r, longitude := longitude r,
        altitude := altitude r, lasttime := lasttime r, comment := comment r,
        message_callsign := message_callsign r, repeater_band := repeater_band r,
        repeater_mode := repeater_mode r,
        human_readable_message := human_readable_message r, aprs_message := aprs_message r\<rparr>"

definition copy_osm :: "vars \<Rightarrow> vars \<Rightarrow> vars" where
  "copy_osm r st =
     st\<lparr>what := what r, latitude := latitude r, longitude := longitude r,
        lasttime := lasttime r, comment := comment r, altitude := altitude r,
        human_readable_message := human_readable_message r, aprs_message := aprs_message r,
        message_callsign := message_callsign r, osm_special_phrase := osm_special_phrase r\<rparr>"

definition copy_dapnet :: "vars \<Rightarrow> vars \<Rightarrow> vars" where
  "copy_dapnet r st =
     st\<lparr>what := what r, message_callsign := message_callsign r,
        human_readable_message := human_readable_message r, aprs_message := aprs_message r,
        dapnet_message := dapnet_message r\<rparr>"

definition copy_fortuneteller :: "vars \<Rightarrow> vars \<Rightarrow> vars" where
  "copy_fortuneteller r st = st\<lparr>what := what r, aprs_message := aprs_message r\<rparr>"

definition copy_email :: "vars \<Rightarrow> vars \<Rightarrow> vars" where
  "copy_email r st =
     (copy_address r
        (st\<lparr>latitude := latitude r, longitude := longitude r,
            users_latitude := users_latitude r, users_longitude := users_longitude r,
            lasttime := lasttime r, comment := comment r, altitude := altitude r,
            what := what r, human_readable_message := human_readable_message r,
            aprs_message := aprs_message r, message_callsign := message_callsign r\<rparr>))
     \<lparr>mail_recipient := mail_recipient r\<rparr>"

definition copy_metar :: "vars \<Rightarrow> vars \<Rightarrow> vars" where
  "copy_metar r st =
     st\<lparr>what := what r, message_callsign := message_callsign r, icao := icao r,
        human_readable_message := human_readable_message r, aprs_message := aprs_message r\<rparr>"

definition copy_wx :: "vars \<Rightarrow> vars \<Rightarrow> vars" where
  "copy_wx r st =
     copy_address r
       (st\<lparr>latitude := latitude r, longitude := longitude r, what := what r,
           message_callsign := message_callsign r,
           human_readable_message := human_readable_message r,
           aprs_message := aprs_message r\<rparr>)"

text \<open>The eleven keyword rules, in the order of the source.\<close>

definition rule_chain :: "env \<Rightarrow> (vars \<Rightarrow> vars) list" where
  "rule_chain e =
     [rule_step (\<lambda>st. parse_what_keyword_callsign_multi e (aprs_message st) (users_callsign st)
                         (language st)) copy_csm,
      rule_step (\<lambda>st. parse_what_keyword_whereami e (aprs_message st) (users_callsign st)
                         (language st)) copy_whereami,
      rule_step (\<lambda>st. parse_what_keyword_cwop_id (aprs_message st) (users_callsign st))
        copy_cwop_id,
      rule_step (\<lambda>st. parse_what_keyword_satpass e (aprs_message st) (users_callsign st))
        copy_satpass,
      rule_step (\<lambda>st. parse_what_keyword_repeater e (aprs_message st) (users_callsign st))
        copy_repeater,
      rule_step (\<lambda>st. parse_what_keyword_osm_category e (aprs_message st) (users_callsign st))
        copy_osm,
      rule_step (\<lambda>st. parse_what_keyword_dapnet (aprs_message st) (users_callsign st))
        copy_dapnet,
      rule_step (\<lambda>st. parse_what_keyword_fortuneteller (aprs_message st)) copy_fortuneteller,
      rule_step (\<lambda>st. parse_what_keyword_email_position_report e (aprs_message st)
                         (users_callsign st) (language st)) copy_email,
      rule_step (\<lambda>st. parse_what_keyword_metar e (aprs_message st) (users_callsign st))
        copy_metar,
      rule_step (\<lambda>st. parse_what_keyword_wx e (aprs_message st) (users_callsign st)
                         (language st)) copy_wx]"

text \<open>\<^verbatim>\<open>if not what and not when and not when_daytime:\<close> nothing valid was found.\<close>

definition s_nothing :: "vars \<Rightarrow> vars" where
  "s_nothing st =
     (if \<not> truthy (what st) \<and> \<not> truthy (when_v st) \<and> \<not> truthy (when_daytime st) then
        (let st = (if \<not> truthy (human_readable_message st)
                   then st\<lparr>human_readable_message := Some errmsg_invalid_command\<rparr> else st)
         in st\<lparr>err := True\<rparr>)
      else st)"

text \<open>The garbage handler: a temporal word was found, no command, and text is left.\<close>

definition s_garbage :: "vars \<Rightarrow> vars" where
  "s_garbage st =
     (if \<not> truthy (what st) then
        (if truthy (when_v st) \<or> truthy (when_daytime st) then
           (if length (aprs_message st) > 0
            then st\<lparr>err := True, human_readable_message := Some errmsg_invalid_command\<rparr>
            else st)
         else st)
      else st)"

definition s_default_when :: "vars \<Rightarrow> vars" where
  "s_default_when st =
     (if \<not> found_when st \<and> \<not> err st
      then st\<lparr>when_v := Some ''today'', found_when := True, date_offset := 0\<rparr>
      else st)"

definition s_default_when_daytime :: "vars \<Rightarrow> vars" where
  "s_default_when_daytime st =
     (if \<not> found_when_daytime st \<and> \<not> err st then
        (let st = (if what st = Some ''metar'' \<or> what st = Some ''taf''
                   then st\<lparr>when_daytime := Some ''day''\<rparr>
                   else st\<lparr>when_daytime := Some ''full''\<rparr>)
         in st\<lparr>found_when_daytime := True\<rparr>)
      else st)"

definition s_default_what :: "vars \<Rightarrow> vars" where
  "s_default_what st =
     (if \<not> truthy (what st) \<and> \<not> err st then st\<lparr>what := Some ''wx''\<rparr> else st)"

text \<open>
  The last block: no rule has claimed the message and there is no error.  With a
  \<^verbatim>\<open>when\<close> value the sender's own position is looked up, first under the full call
  sign, then, when the call sign matches
  \<^verbatim>\<open>^(([A-Z0-9]{1,3}[0123456789][A-Z0-9]{0,3})-([A-Z0-9]{1,2}))$\<close>, without the SSID.
\<close>

definition fallback_found :: "env \<Rightarrow> vars \<Rightarrow> vars" where
  "fallback_found e st =
     wx_reverse e
       (st\<lparr>human_readable_message := Some (py_str (message_callsign st)),
           found_my_duty_roster := True\<rparr>)"

definition s_fallback :: "env \<Rightarrow> vars \<Rightarrow> vars" where
  "s_fallback e st =
     (if \<not> found_my_duty_roster st \<and> \<not> err st then
        (if truthy (when_v st) then
           (let st = assign_position (get_position_on_aprsfi e (users_callsign st)) st
            in if success st then fallback_found e st
               else
                 (case re_search False rx_users_ssid (users_callsign st) of
                    Some matches \<Rightarrow>
                      (let st = assign_position
                                  (get_position_on_aprsfi e (upper (grp matches 2))) st
                       in if success st then fallback_found e st
                          else st\<lparr>human_readable_message :=
                                    Some errmsg_cannot_find_coords_for_user,
                                  err := True\<rparr>)
                  | None \<Rightarrow> st))
         else
           (let st = (if \<not> truthy (human_readable_message st)
                      then st\<lparr>human_readable_message := Some errmsg_invalid_command\<rparr>
                      else st)
            in st\<lparr>err := True\<rparr>))
      else st)"

text \<open>The blocks in order, and the variables after each of them.\<close>

definition extractors :: "env \<Rightarrow> (vars \<Rightarrow> vars) list" where
  "extractors e =
     [s_units, s_unicode, s_language, s_number_of_results, s_help, s_when e, s_when_daytime e]"

definition backfill :: "env \<Rightarrow> (vars \<Rightarrow> vars) list" where
  "backfill e =
     [s_nothing, s_garbage, s_default_when, s_default_when_daytime, s_default_what,
      s_fallback e]"

definition parse_steps :: "env \<Rightarrow> (vars \<Rightarrow> vars) list" where
  "parse_steps e = extractors e @ rule_chain e @ backfill e"

fun trace :: "(vars \<Rightarrow> vars) list \<Rightarrow> vars \<Rightarrow> vars list" where
  "trace [] st = [st]"
| "trace (f # fs) st = st # trace fs (f st)"

fun run :: "(vars \<Rightarrow> vars) list \<Rightarrow> vars \<Rightarrow> vars" where
  "run [] st = st"
| "run (f # fs) st = run fs (f st)"

definition initial :: "string \<Rightarrow> string \<Rightarrow> vars" where
  "initial msg ucs = blank\<lparr>aprs_message := msg, users_callsign := upper ucs\<rparr>"

text \<open>
  The result: the success flag and the variables, which hold every key of
  \<^verbatim>\<open>response_parameters\<close>.
\<close>

definition parse_input_message :: "env \<Rightarrow> string \<Rightarrow> string \<Rightarrow> bool \<times> vars" where
  "parse_input_message e msg ucs =
     (let st = run (parse_steps e) (initial msg ucs) in (\<not> err st, st))"

text \<open>The variables when the keyword chain has ended, before the defaults are applied.\<close>

definition after_chain :: "env \<Rightarrow> string \<Rightarrow> string \<Rightarrow> vars" where
  "after_chain e msg ucs = run (extractors e @ rule_chain e) (initial msg ucs)"

text \<open>
  An environment for examples: every position lookup returns \<open>ok\<close>, the geocoders and the
  airport directory find nothing, there are two OSM categories.
\<close>

definition example_env :: "bool \<Rightarrow> env" where
  "example_env ok =
     \<lparr>get_position_on_aprsfi = (\<lambda>cs. (ok, 51, 8, 100, Timestamp 0, None, Some cs)),
      get_reverse_geopy_data = (\<lambda>lat lon lang abbrev.
         (False, \<lparr>city = None, state = None, country = None, country_code = None,
                  district = None, address = None, zipcode = None, county = None,
                  street = None, street_number = None\<rparr>)),
      get_geocode_geopy_data = (\<lambda>q lang. (False, 0, 0)),
      validate_country = (\<lambda>cc. False),
      validate_icao = (\<lambda>c. (False, 0, 0, False, None)),
      validate_iata = (\<lambda>c. (False, 0, 0, False, None)),
      get_nearest_icao = (\<lambda>lat lon. None),
      maidenhead_to_location = (\<lambda>g. (0, 0)),
      py_float = (\<lambda>s. None),
      float_str = (\<lambda>x. ''0.0''),
      today = 738000,
      osm_supported_keyword_categories = [''police'', ''fire_station''],
      mpad_str_morning = ''morning'', mpad_str_daytime = ''daytime'',
      mpad_str_evening = ''evening'', mpad_str_night = ''night''\<rparr>"

section \<open>Sequences of values along a parse\<close>

text \<open>A list of lengths that never grows from one element to the next.\<close>

fun nonincreasing :: "nat list \<Rightarrow> bool" where
  "nonincreasing (a # b # xs) = (b \<le> a \<and> nonincreasing (b # xs))"
| "nonincreasing xs = True"

text \<open>The number of places where a flag goes from false to true.\<close>

fun rising :: "bool list \<Rightarrow> nat" where
  "rising (a # b # xs) = (if \<not> a \<and> b then 1 else 0) + rising (b # xs)"
| "rising xs = 0"

section \<open>Properties\<close>

text \<open>
  Claim C8.  For every weekday \<open>w\<close> in 0..6 the weekday-offset function returns 7 when
  today's weekday is \<open>w\<close> and \<open>(w - weekday today) mod 7\<close> otherwise; the result lies in
  1..7 and is never 0.
\<close>

theorem getdaysuntil_offset:
  assumes "0 \<le> w" and "w \<le> 6"
  shows "getdaysuntil d w = (if weekday d = w then 7 else (w - weekday d) mod 7)
         \<and> 1 \<le> getdaysuntil d w \<and> getdaysuntil d w \<le> 7
         \<and> getdaysuntil d w \<noteq> 0"
proof -
  have wd: "0 \<le> weekday d" "weekday d < 7"
    by (simp_all add: weekday_def)
  have m: "0 \<le> (w - weekday d) mod 7" "(w - weekday d) mod 7 < 7"
    by simp_all
  have z: "((w - weekday d) mod 7 = 0) = (weekday d = w)"
    using assms wd by presburger
  show ?thesis
    using m z by (auto simp: getdaysuntil_def Let_def)
qed

theorem getdaysuntil_offset_witness:
  "(0::int) \<le> 4 \<and> (4::int) \<le> 6 \<and> getdaysuntil 738001 4 = 7 \<and> getdaysuntil 738000 4 = 1"
  using getdaysuntil_offset [of 4 738000] getdaysuntil_offset [of 4 738001]
  by (simp add: weekday_def)

text \<open>
  Claim C9, as stated: the formatter appends the state (country code US) and the zip code
  whenever they are present.  It fails on a record that has a zip code and neither city
  nor county: the code returns the empty string.
\<close>

theorem address_line_counterexample:
  "build_human_readable_address_message
     \<lparr>city = None, state = None, country = None, country_code = None, district = None,
      address = None, zipcode = Some ''37671'', county = None, street = None,
      street_number = None\<rparr> = []
   \<and> spec_address_line
     \<lparr>city = None, state = None, country = None, country_code = None, district = None,
      address = None, zipcode = Some ''37671'', county = None, street = None,
      street_number = None\<rparr> = '',37671''"
  by (simp add: build_human_readable_address_message_def spec_address_line_def truthy_def)

text \<open>
  Claim C9, amended.  The formatter is a function of the geocode record.  With a city it
  returns the city, then \<open>,STATE\<close> when the country code is US and a state is present,
  then \<open>,ZIP\<close> when a zip code is present; without a city it returns the county name when
  there is one, with neither state nor zip code; in both cases \<open>;COUNTRY_CODE\<close> is
  appended when a country code is present.  When city, county and country code are absent
  the result is the empty string.
\<close>

theorem address_line_cases:
  "(truthy (city rd) \<longrightarrow>
      build_human_readable_address_message rd =
        the (city rd)
        @ (if country_code rd = Some ''US'' \<and> truthy (state rd) then '','' @ the (state rd) else [])
        @ (if truthy (zipcode rd) then '','' @ the (zipcode rd) else [])
        @ (if truthy (country_code rd) then '';'' @ the (country_code rd) else []))
   \<and> (\<not> truthy (city rd) \<longrightarrow>
      build_human_readable_address_message rd =
        (if truthy (county rd) then the (county rd) else [])
        @ (if truthy (country_code rd) then '';'' @ the (country_code rd) else []))
   \<and> (\<not> truthy (city rd) \<and> \<not> truthy (county rd) \<and> \<not> truthy (country_code rd) \<longrightarrow>
      build_human_readable_address_message rd = [])"
  by (auto simp: build_human_readable_address_message_def Let_def truthy_def)

theorem address_line_cases_witness:
  "build_human_readable_address_message
     \<lparr>city = Some ''Albany'', state = Some ''NY'', country = None, country_code = Some ''US'',
      district = None, address = None, zipcode = Some ''12201'', county = Some ''Albany County'',
      street = None, street_number = None\<rparr> = ''Albany,NY,12201;US''
   \<and> build_human_readable_address_message
     \<lparr>city = None, state = Some ''NY'', country = None, country_code = Some ''US'',
      district = None, address = None, zipcode = Some ''12201'', county = Some ''Albany County'',
      street = None, street_number = None\<rparr> = ''Albany County;US''
   \<and> build_human_readable_address_message
     \<lparr>city = None, state = None, country = None, country_code = None,
      district = None, address = None, zipcode = None, county = None,
      street = None, street_number = None\<rparr> = []"
  using address_line_cases [of "\<lparr>city = Some ''Albany'', state = Some ''NY'', country = None,
      country_code = Some ''US'', district = None, address = None, zipcode = Some ''12201'',
      county = Some ''Albany County'', street = None, street_number = None\<rparr>"]
    address_line_cases [of "\<lparr>city = None, state = Some ''NY'', country = None,
      country_code = Some ''US'', district = None, address = None, zipcode = Some ''12201'',
      county = Some ''Albany County'', street = None, street_number = None\<rparr>"]
    address_line_cases [of "\<lparr>city = None, state = None, country = None, country_code = None,
      district = None, address = None, zipcode = None, county = None,
      street = None, street_number = None\<rparr>"]
  by (simp add: truthy_def)

subsection \<open>The remaining text never grows\<close>

lemma length_strip: "length (strip s) \<le> length s"
proof -
  have "length (dropWhile is_space (rev (dropWhile is_space s))) \<le> length (rev (dropWhile is_space s))"
    by (rule length_dropWhile_le)
  also have "\<dots> \<le> length s"
    by (simp add: length_dropWhile_le)
  finally show ?thesis by (simp add: strip_def)
qed

lemma length_sub_from: "length (sub_from ic r x) \<le> length (snd x)"
proof (induction ic r x rule: sub_from.induct)
  case (1 ic r p s)
  show ?case
  proof (cases "List.find (\<lambda>(y, c). length (snd y) < length s) (rx_match ic r ((p, s), []))")
    case None
    show ?thesis
    proof (cases s)
      case Nil
      then show ?thesis using None by simp
    next
      case (Cons a as)
      have "length (sub_from ic r (Some a, as)) \<le> length (snd (Some a, as))"
        using 1(1) [OF None Cons] .
      then show ?thesis
        using None Cons by (simp del: sub_from.simps add: sub_from.simps [of ic r p])
    qed
  next
    case (Some yc)
    obtain y c where yc: "yc = (y, c)" by (cases yc)
    have lt: "length (snd y) < length s"
      using Some yc by (auto simp: find_Some_iff)
    have "length (sub_from ic r y) \<le> length (snd y)"
      using 1(2) [OF Some [unfolded yc] refl] .
    then show ?thesis
      using Some yc lt by (simp del: sub_from.simps add: sub_from.simps [of ic r p])
  qed
qed

lemma length_remove [simp]: "length (remove r s) \<le> length s"
proof -
  have "length (remove r s) \<le> length (re_sub True r s)"
    by (simp add: remove_def length_strip)
  also have "\<dots> \<le> length s"
    using length_sub_from [of True r "(None, s)"] by (simp add: re_sub_def)
  finally show ?thesis .
qed

lemma msg_assign_position [simp]: "aprs_message (assign_position p v) = aprs_message v"
  by (simp add: assign_position_def split: prod.splits)

lemma msg_assign_users_position [simp]: "aprs_message (assign_users_position p v) = aprs_message v"
  by (simp add: assign_users_position_def split: prod.splits)

lemma msg_assign_address [simp]: "aprs_message (assign_address rd v) = aprs_message v"
  by (simp add: assign_address_def)

lemma msg_assign_airport [simp]: "aprs_message (assign_airport a v) = aprs_message v"
  by (simp add: assign_airport_def split: prod.splits)

lemma msg_airport_found [simp]: "aprs_message (airport_found mc v) = aprs_message v"
  by (simp add: airport_found_def Let_def)

lemma msg_wx_reverse [simp]: "aprs_message (wx_reverse e v) = aprs_message v"
  by (simp add: wx_reverse_def Let_def split: prod.splits)

lemma msg_csm_airport [simp]: "aprs_message (csm_airport e v) = aprs_message v"
  by (simp add: csm_airport_def Let_def split: prod.splits)

lemma msg_csm_lookup [simp]: "aprs_message (csm_lookup e v) = aprs_message v"
  by (simp add: csm_lookup_def Let_def split: prod.splits)

lemma msg_copy_address [simp]: "aprs_message (copy_address r st) = aprs_message st"
  by (simp add: copy_address_def)

lemma msg_csm_pattern: "length (aprs_message (csm_pattern r t v)) \<le> length (aprs_message v)"
  by (simp add: csm_pattern_def split: option.splits)

lemma msg_repeater_tier: "length (aprs_message (repeater_tier r m b v)) \<le> length (aprs_message v)"
  by (simp add: repeater_tier_def split: option.splits)

lemma msg_repeater_lookup [simp]: "aprs_message (repeater_lookup e v) = aprs_message v"
  by (simp add: repeater_lookup_def Let_def)

lemma msg_when_days [simp]: "aprs_message (when_days v) = aprs_message v"
  by (simp add: when_days_def Let_def split: option.splits)

lemma msg_when_hours [simp]: "aprs_message (when_hours v) = aprs_message v"
  by (simp add: when_hours_def Let_def split: option.splits)

lemma msg_remove_found: "length (aprs_message (remove_found b v)) \<le> length (aprs_message v)"
  by (simp add: remove_found_def)

lemma length_remove2: "length (remove r2 (remove r1 s)) \<le> length s"
  by (rule order_trans [OF length_remove length_remove])

lemma shrink_units: "length (aprs_message (parse_keyword_units msg)) \<le> length msg"
  by (simp add: parse_keyword_units_def Let_def length_remove2)

lemma shrink_unicode: "length (aprs_message (parse_keyword_unicode msg)) \<le> length msg"
  by (simp add: parse_keyword_unicode_def Let_def)

lemma shrink_language: "length (aprs_message (parse_keyword_language msg)) \<le> length msg"
  by (simp add: parse_keyword_language_def Let_def split: option.splits)

lemma shrink_number: "length (aprs_message (parse_keyword_number_of_results msg)) \<le> length msg"
  by (simp add: parse_keyword_number_of_results_def Let_def split: option.splits)

lemma msg_when_block [simp]: "aprs_message (when_block r w off v) = aprs_message v"
  by (simp add: when_block_def Let_def)

lemma msg_daytime_block [simp]: "aprs_message (daytime_block r w v) = aprs_message v"
  by (simp add: daytime_block_def Let_def)

lemma shrink_le:
  "length (aprs_message (f v)) \<le> length (aprs_message v) \<Longrightarrow> length (aprs_message v) \<le> n
   \<Longrightarrow> length (aprs_message (f v)) \<le> n"
  by (rule order_trans)

lemma shrink_when: "length (aprs_message (parse_when e msg)) \<le> length msg"
  unfolding parse_when_def Let_def
  by (rule shrink_le [OF msg_remove_found]) simp

lemma shrink_when_daytime: "length (aprs_message (parse_when_daytime e msg)) \<le> length msg"
  unfolding parse_when_daytime_def Let_def
  by (rule shrink_le [OF msg_remove_found]) simp

lemma shrink_csm_patterns:
  "length (aprs_message (csm_pattern r4 t4 (csm_pattern r3 t3 (csm_pattern r2 t2
     (csm_pattern r1 t1 v))))) \<le> length (aprs_message v)"
  by (intro shrink_le [OF msg_csm_pattern] order_refl)

lemma shrink_csm:
  "length (aprs_message (parse_what_keyword_callsign_multi e msg ucs lang)) \<le> length msg"
  unfolding parse_what_keyword_callsign_multi_def Let_def
  using shrink_csm_patterns [of rx_csm_bare _ rx_csm_token _ rx_csm_callsign _ rx_csm_ssid _
      "blank\<lparr>aprs_message := msg, users_callsign := ucs, language := lang\<rparr>"]
  by (simp split: if_splits)

lemma shrink_whereami:
  "length (aprs_message (parse_what_keyword_whereami e msg ucs lang)) \<le> length msg"
  by (simp add: parse_what_keyword_whereami_def Let_def split: prod.splits)

lemma shrink_cwop_id: "length (aprs_message (parse_what_keyword_cwop_id msg ucs)) \<le> length msg"
  by (simp add: parse_what_keyword_cwop_id_def Let_def split: option.splits)

lemma shrink_satpass: "length (aprs_message (parse_what_keyword_satpass e msg ucs)) \<le> length msg"
  by (simp add: parse_what_keyword_satpass_def Let_def split: option.splits)

lemma shrink_repeater_tiers:
  "length (aprs_message (repeater_tier r5 m5 b5 (repeater_tier r4 m4 b4 (repeater_tier r3 m3 b3
     (repeater_tier r2 m2 b2 (repeater_tier r1 m1 b1 v)))))) \<le> length (aprs_message v)"
  by (intro shrink_le [OF msg_repeater_tier] order_refl)

lemma shrink_repeater: "length (aprs_message (parse_what_keyword_repeater e msg ucs)) \<le> length msg"
  unfolding parse_what_keyword_repeater_def Let_def
  using shrink_repeater_tiers [of rx_repeater _ _ rx_repeater_band _ _ rx_repeater_mode _ _
      rx_repeater_band_mode _ _ rx_repeater_mode_band _ _
      "blank\<lparr>aprs_message := msg, users_callsign := ucs, message_callsign := Some ucs\<rparr>"]
  by (simp split: if_splits)

lemma shrink_osm_loop: "length (aprs_message (osm_loop e cats v)) \<le> length (aprs_message v)"
proof (induction cats arbitrary: v)
  case Nil
  show ?case by simp
next
  case (Cons c cats)
  show ?case
    using Cons.IH [of v] by (simp add: Let_def)
qed

lemma shrink_osm: "length (aprs_message (parse_what_keyword_osm_category e msg ucs)) \<le> length msg"
  using shrink_osm_loop [of e "osm_supported_keyword_categories e"
      "blank\<lparr>aprs_message := msg, users_callsign := ucs\<rparr>"]
  by (simp add: parse_what_keyword_osm_category_def)

lemma shrink_dapnet: "length (aprs_message (parse_what_keyword_dapnet msg ucs)) \<le> length msg"
  by (simp add: parse_what_keyword_dapnet_def Let_def split: option.splits)

lemma shrink_fortuneteller: "length (aprs_message (parse_what_keyword_fortuneteller msg)) \<le> length msg"
  by (simp add: parse_what_keyword_fortuneteller_def Let_def)

lemma shrink_email:
  "length (aprs_message (parse_what_keyword_email_position_report e msg ucs lang)) \<le> length msg"
  by (simp add: parse_what_keyword_email_position_report_def Let_def split: option.splits prod.splits)

lemma msg_metar_icao_kw: "length (aprs_message (metar_icao_kw e v)) \<le> length (aprs_message v)"
  by (simp add: metar_icao_kw_def Let_def split: option.splits)

lemma msg_metar_iata_kw: "length (aprs_message (metar_iata_kw e v)) \<le> length (aprs_message v)"
  by (simp add: metar_iata_kw_def Let_def split: option.splits)

lemma msg_metar_guess: "length (aprs_message (metar_guess r f v)) \<le> length (aprs_message v)"
  by (simp add: metar_guess_def Let_def split: option.splits)

lemma msg_metar_nearest: "length (aprs_message (metar_nearest e w l v)) \<le> length (aprs_message v)"
  by (simp add: metar_nearest_def Let_def split: option.splits)

lemma shrink_metar: "length (aprs_message (parse_what_keyword_metar e msg ucs)) \<le> length msg"
proof -
  have "length (aprs_message (metar_nearest e ''taf'' ''TAF'' (metar_nearest e ''metar'' ''METAR''
          (metar_guess rx_iata (validate_iata e) (metar_guess rx_icao (validate_icao e)
            (metar_iata_kw e (metar_icao_kw e
              (blank\<lparr>aprs_message := msg, users_callsign := ucs\<rparr>)))))))) \<le> length msg"
    by (intro shrink_le [OF msg_metar_nearest] shrink_le [OF msg_metar_guess]
          shrink_le [OF msg_metar_iata_kw] shrink_le [OF msg_metar_icao_kw]) simp
  then show ?thesis
    by (simp add: parse_what_keyword_metar_def Let_def)
qed

lemma msg_wx_city_state_country:
  "length (aprs_message (wx_city_state_country v)) \<le> length (aprs_message v)"
  by (simp add: wx_city_state_country_def Let_def split: option.splits)

lemma msg_wx_city_state: "length (aprs_message (wx_city_state v)) \<le> length (aprs_message v)"
  by (simp add: wx_city_state_def Let_def split: option.splits)

lemma msg_wx_city_country: "length (aprs_message (wx_city_country v)) \<le> length (aprs_message v)"
  by (simp add: wx_city_country_def Let_def split: option.splits)

lemma msg_wx_address_geocode [simp]: "aprs_message (wx_address_geocode e v) = aprs_message v"
  by (simp add: wx_address_geocode_def Let_def split: prod.splits)

lemma msg_wx_address: "length (aprs_message (wx_address e v)) \<le> length (aprs_message v)"
proof -
  have "length (aprs_message (wx_city_country (wx_city_state (wx_city_state_country v))))
        \<le> length (aprs_message v)"
    by (intro shrink_le [OF msg_wx_city_country] shrink_le [OF msg_wx_city_state]
          msg_wx_city_state_country)
  then show ?thesis
    by (simp add: wx_address_def Let_def)
qed

lemma msg_wx_zip_country_kw:
  "length (aprs_message (wx_zip_country_kw v)) \<le> length (aprs_message v)"
  by (simp add: wx_zip_country_kw_def Let_def split: option.splits)

lemma msg_wx_zip5_kw: "length (aprs_message (wx_zip5_kw v)) \<le> length (aprs_message v)"
  by (simp add: wx_zip5_kw_def Let_def split: option.splits)

lemma msg_wx_zip_country: "length (aprs_message (wx_zip_country v)) \<le> length (aprs_message v)"
  by (simp add: wx_zip_country_def Let_def split: option.splits)

lemma msg_wx_zip_geocode [simp]: "aprs_message (wx_zip_geocode e v) = aprs_message v"
  by (simp add: wx_zip_geocode_def Let_def split: prod.splits)

lemma msg_wx_zip: "length (aprs_message (wx_zip e v)) \<le> length (aprs_message v)"
proof -
  have "length (aprs_message (wx_zip_country (wx_zip5_kw (wx_zip_country_kw
          (v\<lparr>query := no_query\<rparr>))))) \<le> length (aprs_message (v\<lparr>query := no_query\<rparr>))"
    by (intro shrink_le [OF msg_wx_zip_country] shrink_le [OF msg_wx_zip5_kw]
          msg_wx_zip_country_kw)
  then show ?thesis
    by (simp add: wx_zip_def Let_def)
qed

lemma msg_wx_zip5: "length (aprs_message (wx_zip5 e v)) \<le> length (aprs_message v)"
  by (simp add: wx_zip5_def Let_def split: option.splits prod.splits)

lemma msg_wx_grid_block: "length (aprs_message (wx_grid_block e r g v)) \<le> length (aprs_message v)"
  by (simp add: wx_grid_block_def Let_def split: option.splits prod.splits)

lemma msg_wx_latlon: "length (aprs_message (wx_latlon e v)) \<le> length (aprs_message v)"
  by (simp add: wx_latlon_def Let_def split: option.splits prod.splits)

lemma msg_wx_callsign: "length (aprs_message (wx_callsign e v)) \<le> length (aprs_message v)"
  by (simp add: wx_callsign_def Let_def split: option.splits)

lemma shrink_wx: "length (aprs_message (parse_what_keyword_wx e msg ucs lang)) \<le> length msg"
  unfolding parse_what_keyword_wx_def Let_def
  by (intro shrink_le [OF msg_wx_callsign] shrink_le [OF msg_wx_latlon]
        shrink_le [OF msg_wx_grid_block] shrink_le [OF msg_wx_zip5] shrink_le [OF msg_wx_zip]
        shrink_le [OF msg_wx_address]) simp

lemma step_units: "length (aprs_message (s_units st)) \<le> length (aprs_message st)"
  using shrink_units [of "aprs_message st"] by (simp add: s_units_def Let_def)

lemma step_unicode: "length (aprs_message (s_unicode st)) \<le> length (aprs_message st)"
  using shrink_unicode [of "aprs_message st"] by (simp add: s_unicode_def Let_def)

lemma step_language: "length (aprs_message (s_language st)) \<le> length (aprs_message st)"
  using shrink_language [of "aprs_message st"] by (simp add: s_language_def Let_def)

lemma step_number: "length (aprs_message (s_number_of_results st)) \<le> length (aprs_message st)"
  using shrink_number [of "aprs_message st"] by (simp add: s_number_of_results_def Let_def)

lemma step_help [simp]: "aprs_message (s_help st) = aprs_message st"
  by (simp add: s_help_def)

lemma step_when: "length (aprs_message (s_when e st)) \<le> length (aprs_message st)"
  using shrink_when [of e "aprs_message st"] by (simp add: s_when_def Let_def)

lemma step_when_daytime: "length (aprs_message (s_when_daytime e st)) \<le> length (aprs_message st)"
  using shrink_when_daytime [of e "aprs_message st"] by (simp add: s_when_daytime_def Let_def)

lemma step_rule:
  assumes "\<And>st. length (aprs_message (h st)) \<le> length (aprs_message st)"
    and "\<And>r x. aprs_message (copy r x) = aprs_message r"
  shows "length (aprs_message (rule_step h copy st)) \<le> length (aprs_message st)"
  using assms(1) [of st] by (simp add: rule_step_def Let_def assms(2))

lemma step_backfill [simp]:
  "aprs_message (s_nothing st) = aprs_message st"
  "aprs_message (s_garbage st) = aprs_message st"
  "aprs_message (s_default_when st) = aprs_message st"
  "aprs_message (s_default_when_daytime st) = aprs_message st"
  "aprs_message (s_default_what st) = aprs_message st"
  by (simp_all add: s_nothing_def s_garbage_def s_default_when_def s_default_when_daytime_def
        s_default_what_def Let_def)

lemma step_fallback [simp]: "aprs_message (s_fallback e st) = aprs_message st"
  by (simp add: s_fallback_def fallback_found_def Let_def split: option.splits)

lemma steps_shrink:
  assumes "f \<in> set (parse_steps e)"
  shows "length (aprs_message (f st)) \<le> length (aprs_message st)"
proof -
  have c: "\<And>r x. aprs_message (copy_csm r x) = aprs_message r"
    "\<And>r x. aprs_message (copy_whereami r x) = aprs_message r"
    "\<And>r x. aprs_message (copy_cwop_id r x) = aprs_message r"
    "\<And>r x. aprs_message (copy_satpass r x) = aprs_message r"
    "\<And>r x. aprs_message (copy_repeater r x) = aprs_message r"
    "\<And>r x. aprs_message (copy_osm r x) = aprs_message r"
    "\<And>r x. aprs_message (copy_dapnet r x) = aprs_message r"
    "\<And>r x. aprs_message (copy_fortuneteller r x) = aprs_message r"
    "\<And>r x. aprs_message (copy_email r x) = aprs_message r"
    "\<And>r x. aprs_message (copy_metar r x) = aprs_message r"
    "\<And>r x. aprs_message (copy_wx r x) = aprs_message r"
    by (simp_all add: copy_csm_def copy_whereami_def copy_cwop_id_def copy_satpass_def
          copy_repeater_def copy_osm_def copy_dapnet_def copy_fortuneteller_def copy_email_def
          copy_metar_def copy_wx_def)
  from assms consider "f \<in> set (extractors e)" | "f \<in> set (rule_chain e)" | "f \<in> set (backfill e)"
    by (auto simp: parse_steps_def)
  then show ?thesis
  proof cases
    case 1
    then show ?thesis
      unfolding extractors_def
      using step_units step_unicode step_language step_number step_when step_when_daytime
      by auto
  next
    case 2
    then show ?thesis
      unfolding rule_chain_def
      by (auto intro!: step_rule shrink_csm shrink_whereami shrink_cwop_id shrink_satpass
            shrink_repeater shrink_osm shrink_dapnet shrink_fortuneteller shrink_email
            shrink_metar shrink_wx simp: c)
  next
    case 3
    then show ?thesis
      unfolding backfill_def by auto
  qed
qed

lemma trace_nonincreasing:
  assumes "\<And>f st. f \<in> set fs \<Longrightarrow> length (aprs_message (f st)) \<le> length (aprs_message st)"
  shows "nonincreasing (map (\<lambda>st. length (aprs_message st)) (trace fs st))"
  using assms
proof (induction fs arbitrary: st)
  case Nil
  show ?case by simp
next
  case (Cons f fs)
  have "nonincreasing (map (\<lambda>st. length (aprs_message st)) (trace fs (f st)))"
    using Cons by simp
  moreover have "length (aprs_message (f st)) \<le> length (aprs_message st)"
    using Cons.prems by simp
  ultimately show ?case
    by (cases fs) simp_all
qed

text \<open>
  Claim C7.  Text consumption is monotonic: each modifier extractor, each temporal
  extractor and each keyword rule handler returns a message text that is at most as long
  as the text it was given, and along one parse the length of the remaining text never
  grows from one block of the parser to the next.
\<close>

theorem text_consumption_monotonic:
  "length (aprs_message (parse_keyword_units msg)) \<le> length msg
   \<and> length (aprs_message (parse_keyword_unicode msg)) \<le> length msg
   \<and> length (aprs_message (parse_keyword_language msg)) \<le> length msg
   \<and> length (aprs_message (parse_keyword_number_of_results msg)) \<le> length msg
   \<and> length (aprs_message (parse_when e msg)) \<le> length msg
   \<and> length (aprs_message (parse_when_daytime e msg)) \<le> length msg
   \<and> length (aprs_message (parse_what_keyword_callsign_multi e msg ucs lang)) \<le> length msg
   \<and> length (aprs_message (parse_what_keyword_whereami e msg ucs lang)) \<le> length msg
   \<and> length (aprs_message (parse_what_keyword_cwop_id msg ucs)) \<le> length msg
   \<and> length (aprs_message (parse_what_keyword_satpass e msg ucs)) \<le> length msg
   \<and> length (aprs_message (parse_what_keyword_repeater e msg ucs)) \<le> length msg
   \<and> length (aprs_message (parse_what_keyword_osm_category e msg ucs)) \<le> length msg
   \<and> length (aprs_message (parse_what_keyword_dapnet msg ucs)) \<le> length msg
   \<and> length (aprs_message (parse_what_keyword_fortuneteller msg)) \<le> length msg
   \<and> length (aprs_message (parse_what_keyword_email_position_report e msg ucs lang)) \<le> length msg
   \<and> length (aprs_message (parse_what_keyword_metar e msg ucs)) \<le> length msg
   \<and> length (aprs_message (parse_what_keyword_wx e msg ucs lang)) \<le> length msg
   \<and> nonincreasing (map (\<lambda>st. length (aprs_message st))
                       (trace (parse_steps e) (initial msg ucs)))"
proof -
  have mono: "nonincreasing (map (\<lambda>st. length (aprs_message st))
          (trace (parse_steps e) (initial msg ucs)))"
    by (rule trace_nonincreasing) (rule steps_shrink)
  show ?thesis
    by (intro conjI shrink_units shrink_unicode shrink_language shrink_number shrink_when
          shrink_when_daytime shrink_csm shrink_whereami shrink_cwop_id shrink_satpass
          shrink_repeater shrink_osm shrink_dapnet shrink_fortuneteller shrink_email
          shrink_metar shrink_wx mono)
qed

end
